theory Spec2Isabelle
  imports Main "HOL-Library.Sublist"
begin

section \<open>Requests and responses\<close>

text \<open>
  A field of a parsed JSON body, or of the parsed query string, is a JavaScript value.
  \<open>JUndefined\<close> is what reading an absent property gives. Numbers are the integers
  (fractions are not in the model), and strings are lists of code units, so that
  \<open>length\<close> is the \<open>.length\<close> of the source. Objects nested inside a field are not in
  the model.
\<close>

datatype jsval =
    JUndefined
  | JNull
  | JBool bool
  | JNum int
  | JStr string
  | JArr "jsval list"

type_synonym jsobject = "(string \<times> jsval) list"

text \<open>
  A parsed body or query: its properties in their order, each name once.
  \<open>req.body.k\<close> and \<open>req.query.k\<close> read the property \<open>k\<close>.
\<close>

definition property :: "jsobject \<Rightarrow> string \<Rightarrow> jsval" where
  "property obj k = (case map_of obj k of None \<Rightarrow> JUndefined | Some v \<Rightarrow> v)"

text \<open>The truth value JavaScript gives a value in \<open>!v\<close> and in \<open>if (v)\<close>.\<close>

fun truthy :: "jsval \<Rightarrow> bool" where
  "truthy JUndefined = False"
| "truthy JNull = False"
| "truthy (JBool b) = b"
| "truthy (JNum n) = (n \<noteq> 0)"
| "truthy (JStr s) = (s \<noteq> [])"
| "truthy (JArr xs) = True"

text \<open>
  \<open>v.length\<close> of a value that is not null or undefined: strings and arrays have
  one, booleans and numbers give undefined (\<open>None\<close>). The source reads it only after
  the value has passed the truthiness test.
\<close>

fun js_length :: "jsval \<Rightarrow> nat option" where
  "js_length (JStr s) = Some (length s)"
| "js_length (JArr xs) = Some (length xs)"
| "js_length v = None"

text \<open>\<open>v.length > 300\<close>: a comparison with undefined is false.\<close>

definition length_over :: "jsval \<Rightarrow> nat \<Rightarrow> bool" where
  "length_over v n = (case js_length v of None \<Rightarrow> False | Some l \<Rightarrow> l > n)"

text \<open>Rows of the tables, as the statements of the routers name their columns.\<close>

type_synonym time = int

record question =
  q_id :: int
  q_title :: string
  q_description :: string
  q_category :: string
  q_created_at :: time
  q_updated_at :: time

record answer =
  a_id :: int
  a_question_id :: int
  a_content :: string
  a_created_at :: time
  a_updated_at :: time

text \<open>
  A row of \<open>question_votes\<close> or of \<open>answer_votes\<close>: \<open>target_id\<close> is the column
  \<open>question_id\<close> of the first table and \<open>answer_id\<close> of the second. These are the
  columns the insert statements name.
\<close>

record vote_event =
  target_id :: int
  vote :: int
  v_created_at :: time
  v_updated_at :: time

text \<open>
  The JSON of a response: its status, its \<open>message\<close>, and what it carries beside the
  message (\<open>data\<close>, \<open>newQuestion\<close>, \<open>answer\<close>, \<open>updatedQuestion\<close>, and
  \<open>questionVote\<close> or \<open>answerVote\<close>: the item's columns with \<open>upvote\<close> and
  \<open>downvote\<close>, the two counts of the select, kept as numbers here).
\<close>

datatype payload =
    NoData
  | QuestionList "question list"
  | QuestionData question
  | AnswerList "answer list"
  | AnswerData answer
  | QuestionVote question nat nat
  | AnswerVote answer nat nat

datatype response = Response (status: nat) (message: string) (payload: payload)

text \<open>A middleware either answers the request itself or calls \<open>next()\<close>.\<close>

datatype gate = Reject response | Next

section \<open>The validation middlewares\<close>

definition validateQuestion :: "jsobject \<Rightarrow> gate" where
  "validateQuestion body =
     (if \<not> truthy (property body ''title'') then
        Reject (Response 400 ''Missing or invalid request data.'' NoData)
      else if \<not> truthy (property body ''description'') then
        Reject (Response 400 ''Missing or invalid request data.'' NoData)
      else if \<not> truthy (property body ''category'') then
        Reject (Response 400 ''Missing or invalid request data.'' NoData)
      else Next)"

definition validateQuestionUpVote :: "jsobject \<Rightarrow> gate" where
  "validateQuestionUpVote body =
     (if \<not> truthy (property body ''vote'') then
        Reject (Response 400 ''Missing or invalid request data.'' NoData)
      else if property body ''vote'' \<noteq> JStr ''1'' then
        Reject (Response 400 ''Please enter only 1.'' NoData)
      else Next)"

definition validateQuestionDownVote :: "jsobject \<Rightarrow> gate" where
  "validateQuestionDownVote body =
     (if \<not> truthy (property body ''vote'') then
        Reject (Response 400 ''Missing or invalid request data.'' NoData)
      else if property body ''vote'' \<noteq> JStr ''-1'' then
        Reject (Response 400 ''Please enter only -1.'' NoData)
      else Next)"

text \<open>\<open>for (let key in req.query)\<close>: the keys in their order, left at the first bad one.\<close>

fun validateQuery_keys :: "string list \<Rightarrow> gate" where
  "validateQuery_keys [] = Next"
| "validateQuery_keys (key # keys) =
     (if key \<noteq> ''title'' \<and> key \<noteq> ''category'' then
        Reject (Response 400 ''Please enter a correct query.'' NoData)
      else validateQuery_keys keys)"

definition validateQuery :: "jsobject \<Rightarrow> gate" where
  "validateQuery query = validateQuery_keys (map fst query)"

definition validateAnswer :: "jsobject \<Rightarrow> gate" where
  "validateAnswer body =
     (if \<not> truthy (property body ''content'') then
        Reject (Response 400 ''Missing or invalid request data.'' NoData)
      else if length_over (property body ''content'') 300 then
        Reject (Response 400 ''Textlength is over 300.'' NoData)
      else Next)"

definition validateAnswerDownVote :: "jsobject \<Rightarrow> gate" where
  "validateAnswerDownVote body =
     (if \<not> truthy (property body ''vote'') then
        Reject (Response 400 ''Missing or invalid request data.'' NoData)
      else if property body ''vote'' \<noteq> JStr ''-1'' then
        Reject (Response 400 ''Please enter only -1.'' NoData)
      else Next)"

definition validateAnswerUpVote :: "jsobject \<Rightarrow> gate" where
  "validateAnswerUpVote body =
     (if \<not> truthy (property body ''vote'') then
        Reject (Response 400 ''Missing or invalid request data.'' NoData)
      else if property body ''vote'' \<noteq> JStr ''1'' then
        Reject (Response 400 ''Please enter only 1.'' NoData)
      else Next)"

section \<open>The store\<close>

text \<open>
  Modelled from the spec: the table declarations are missing from the repository, and
  with them the keys the store assigns and the constraints between tables. The rows
  carry the columns the statements of the routers name. The identity of a new question
  or answer is assigned by the store on insertion (here from a counter per table), and
  the vote tables have no integrity dependency on the existence of their target, so
  that a vote row for any target id can be inserted. A statement changes the table it
  names and no other.
\<close>

record db =
  questions :: "question list"
  answers :: "answer list"
  question_votes :: "vote_event list"
  answer_votes :: "vote_event list"
  question_seq :: int
  answer_seq :: int

text \<open>
  What a handler reads from outside the request. \<open>db_ok\<close> says whether the promise
  of \<open>connectionPool.query\<close> resolves, or rejects for a reason the model does not
  derive from the request: the store cannot be reached, or it refuses the statement (a
  number out of the range of its column, a constraint of the table declarations).
  \<open>date1\<close> and \<open>date2\<close> are the values of the first and the second \<open>new Date()\<close>
  of the handler.
\<close>

record env =
  db_ok :: bool
  date1 :: time
  date2 :: time

text \<open>
  The parameter the driver sends for a JavaScript value: null and undefined are sent as
  NULL (\<open>None\<close>), a string as itself, any other value as the text \<open>ser\<close> gives it.
  The driver is not part of the repository, so \<open>ser\<close> is a parameter of the handlers.
\<close>

fun pg_text :: "(jsval \<Rightarrow> string) \<Rightarrow> jsval \<Rightarrow> string option" where
  "pg_text ser JUndefined = None"
| "pg_text ser JNull = None"
| "pg_text ser (JStr s) = Some s"
| "pg_text ser v = Some (ser v)"

text \<open>
  The route parameter \<open>id\<close> and the \<open>vote\<close> of the body reach the statement as text
  and meet a numeric column there (the select compares \<open>vote\<close> with 1 and -1, and the
  documentation of the routes gives the ids as integers). The store reads such a text
  as a number: an optional sign and decimal digits. In the model any other text makes
  the statement fail, which is the \<open>catch\<close> of the handler.
\<close>

definition digit :: "char \<Rightarrow> bool" where
  "digit c = (48 \<le> (of_char c :: nat) \<and> (of_char c :: nat) \<le> 57)"

definition decimal :: "string \<Rightarrow> nat" where
  "decimal ds = foldl (\<lambda>n c. 10 * n + ((of_char c :: nat) - 48)) 0 ds"

definition digits :: "string \<Rightarrow> nat option" where
  "digits ds = (if ds \<noteq> [] \<and> list_all digit ds then Some (decimal ds) else None)"

fun int_of_text :: "string \<Rightarrow> int option" where
  "int_of_text [] = None"
| "int_of_text (c # cs) =
     (if c = CHR ''-'' then map_option (\<lambda>n. - int n) (digits cs)
      else if c = CHR ''+'' then map_option int (digits cs)
      else map_option int (digits (c # cs)))"

definition pg_integer :: "(jsval \<Rightarrow> string) \<Rightarrow> jsval \<Rightarrow> int option" where
  "pg_integer ser v = (case pg_text ser v of None \<Rightarrow> None | Some t \<Rightarrow> int_of_text t)"

text \<open>\<open>(col = $n or $n is null or $n = '')\<close> of the list statement.\<close>

definition sql_filter :: "string option \<Rightarrow> string \<Rightarrow> bool" where
  "sql_filter p col = (case p of None \<Rightarrow> True | Some t \<Rightarrow> col = t \<or> t = [])"

text \<open>
  The select of the four vote statements,
  \<^verbatim>\<open>with newField as (insert into T_votes (...) values ($1,$2,$3,$4) returning *)
  select T.*, count(case when T_votes.vote = 1 then T_votes end) as upvote,
              count(case when T_votes.vote = -1 then T_votes end) as downvote
  from T inner join T_votes on T.id = T_votes.T_id
         inner join newField on newField.T_id = T_votes.T_id
  where T.id = $1 group by T.id\<close>
  for the item table \<open>items\<close> (with key \<open>key\<close>), the vote table \<open>votes\<close> and the
  inserted row \<open>newField\<close>.

  PostgreSQL runs the insert of the \<open>with\<close> clause and the select on one snapshot (its
  manual, Data-Modifying Statements in WITH: the sub-statements cannot see one another's
  effects on the target tables, and the returned rows are the only way to pass changes
  to the main query). So \<open>votes\<close>, the table the select scans, is the vote table as it
  was before the statement, and \<open>newField\<close> reaches the select only through the join
  condition. The rows are grouped by the item's key, which \<open>where\<close> fixes: one group
  when the join has a row, none otherwise. The handlers read \<open>rowCount\<close> and
  \<open>rows[0]\<close> of this result.
\<close>

definition vote_statement ::
  "('i \<Rightarrow> int) \<Rightarrow> 'i list \<Rightarrow> vote_event list \<Rightarrow> vote_event \<Rightarrow> ('i \<times> nat \<times> nat) list" where
  "vote_statement key items votes newField =
     (let joined = [(i, v). i \<leftarrow> items, v \<leftarrow> votes,
                      key i = target_id v,
                      target_id newField = target_id v,
                      key i = target_id newField]
      in case joined of
           [] \<Rightarrow> []
         | (i, v) # rest \<Rightarrow>
             [(i, length [r \<leftarrow> joined. vote (snd r) = 1],
                  length [r \<leftarrow> joined. vote (snd r) = - 1])])"

section \<open>The routes of the question router\<close>

text \<open>\<open>GET /questions\<close>, behind \<open>validateQuery\<close>.\<close>

definition get_questions ::
  "(jsval \<Rightarrow> string) \<Rightarrow> env \<Rightarrow> db \<Rightarrow> jsobject \<Rightarrow> response \<times> db" where
  "get_questions ser e s query =
     (let title = pg_text ser (property query ''title'');
          category = pg_text ser (property query ''category'')
      in if \<not> db_ok e then
           (Response 500 ''Server could not read question because database connection.'' NoData, s)
         else
           let rows = [q \<leftarrow> questions s.
                         sql_filter title (q_title q) \<and> sql_filter category (q_category q)]
           in if length rows = 0 then (Response 404 ''Question not found.'' NoData, s)
              else (Response 200 ''Successfully retrieved the list of questions.''
                      (QuestionList rows), s))"

text \<open>\<open>GET /questions/:id\<close>.\<close>

definition get_question :: "env \<Rightarrow> db \<Rightarrow> string \<Rightarrow> response \<times> db" where
  "get_question e s ident =
     (case int_of_text ident of
        None \<Rightarrow>
          (Response 500 ''Server could not read question because database connection.'' NoData, s)
      | Some i \<Rightarrow>
          if \<not> db_ok e then
            (Response 500 ''Server could not read question because database connection.'' NoData, s)
          else
            (case [q \<leftarrow> questions s. q_id q = i] of
               [] \<Rightarrow> (Response 404 ''Question not found.'' NoData, s)
             | q # rest \<Rightarrow>
                 (Response 200 ''Successfully retrieved the list of questions.''
                    (QuestionData q), s)))"

text \<open>\<open>GET /questions/:id/answers\<close>: an empty list is a 200 here.\<close>

definition get_question_answers :: "env \<Rightarrow> db \<Rightarrow> string \<Rightarrow> response \<times> db" where
  "get_question_answers e s ident =
     (case int_of_text ident of
        None \<Rightarrow>
          (Response 500 ''Server could not read answer because database connection.'' NoData, s)
      | Some i \<Rightarrow>
          if \<not> db_ok e then
            (Response 500 ''Server could not read answer because database connection.'' NoData, s)
          else
            (Response 200 ''Successfully retrieved the answers.''
               (AnswerList [a \<leftarrow> answers s. a_question_id a = i]), s))"

text \<open>
  \<open>POST /questions\<close>, behind \<open>validateQuestion\<close>. A NULL in a column cannot come
  from a body that passed the middleware; the model lets the statement fail on it.
\<close>

definition post_question ::
  "(jsval \<Rightarrow> string) \<Rightarrow> env \<Rightarrow> db \<Rightarrow> jsobject \<Rightarrow> response \<times> db" where
  "post_question ser e s body =
     (case (pg_text ser (property body ''title''),
            pg_text ser (property body ''description''),
            pg_text ser (property body ''category'')) of
        (Some t, Some d, Some c) \<Rightarrow>
          if \<not> db_ok e then
            (Response 500 ''Server could not create question because database connection.''
               NoData, s)
          else
            let row = \<lparr>q_id = question_seq s, q_title = t, q_description = d, q_category = c,
                       q_created_at = date1 e, q_updated_at = date2 e\<rparr>
            in (Response 201 ''Question created successfully.'' (QuestionData row),
                s\<lparr>questions := questions s @ [row], question_seq := question_seq s + 1\<rparr>)
      | _ \<Rightarrow>
          (Response 500 ''Server could not create question because database connection.''
             NoData, s))"

text \<open>\<open>POST /questions/:id/answers\<close>, behind \<open>validateAnswer\<close>.\<close>

definition post_question_answer ::
  "(jsval \<Rightarrow> string) \<Rightarrow> env \<Rightarrow> db \<Rightarrow> string \<Rightarrow> jsobject \<Rightarrow> response \<times> db" where
  "post_question_answer ser e s ident body =
     (case (int_of_text ident, pg_text ser (property body ''content'')) of
        (Some i, Some c) \<Rightarrow>
          if \<not> db_ok e then
            (Response 500 ''Server could not create answer because database connection.''
               NoData, s)
          else
            let row = \<lparr>a_id = answer_seq s, a_question_id = i, a_content = c,
                       a_created_at = date1 e, a_updated_at = date2 e\<rparr>
            in (Response 201 ''Answer created successfully.'' (AnswerData row),
                s\<lparr>answers := answers s @ [row], answer_seq := answer_seq s + 1\<rparr>)
      | _ \<Rightarrow>
          (Response 500 ''Server could not create answer because database connection.''
             NoData, s))"

text \<open>
  \<open>POST /questions/:id/upvote\<close> and \<open>/downvote\<close>: the two handlers differ in the
  message of their 200 only. When the statement runs, the row is inserted whatever the
  select returns; when it fails, nothing is.
\<close>

definition question_vote ::
  "string \<Rightarrow> (jsval \<Rightarrow> string) \<Rightarrow> env \<Rightarrow> db \<Rightarrow> string \<Rightarrow> jsobject \<Rightarrow> response \<times> db" where
  "question_vote done ser e s ident body =
     (case (int_of_text ident, pg_integer ser (property body ''vote'')) of
        (Some i, Some d) \<Rightarrow>
          if \<not> db_ok e then
            (Response 500 ''Server could not vote question because database connection.''
               NoData, s)
          else
            let newField = \<lparr>target_id = i, vote = d,
                            v_created_at = date1 e, v_updated_at = date2 e\<rparr>;
                rows = vote_statement q_id (questions s) (question_votes s) newField;
                s' = s\<lparr>question_votes := question_votes s @ [newField]\<rparr>
            in (case rows of
                  [] \<Rightarrow> (Response 404 ''Question not found.'' NoData, s')
                | (q, up, down) # rest \<Rightarrow> (Response 200 done (QuestionVote q up down), s'))
      | _ \<Rightarrow>
          (Response 500 ''Server could not vote question because database connection.''
             NoData, s))"

definition post_question_upvote ::
  "(jsval \<Rightarrow> string) \<Rightarrow> env \<Rightarrow> db \<Rightarrow> string \<Rightarrow> jsobject \<Rightarrow> response \<times> db" where
  "post_question_upvote = question_vote ''Successfully upvoted the question.''"

definition post_question_downvote ::
  "(jsval \<Rightarrow> string) \<Rightarrow> env \<Rightarrow> db \<Rightarrow> string \<Rightarrow> jsobject \<Rightarrow> response \<times> db" where
  "post_question_downvote = question_vote ''Successfully downvoted the question.''"

text \<open>\<open>PUT /questions/:id\<close>, behind \<open>validateQuestion\<close>; it calls \<open>new Date()\<close> once.\<close>

definition put_question ::
  "(jsval \<Rightarrow> string) \<Rightarrow> env \<Rightarrow> db \<Rightarrow> string \<Rightarrow> jsobject \<Rightarrow> response \<times> db" where
  "put_question ser e s ident body =
     (case (int_of_text ident,
            pg_text ser (property body ''title''),
            pg_text ser (property body ''description''),
            pg_text ser (property body ''category'')) of
        (Some i, Some t, Some d, Some c) \<Rightarrow>
          if \<not> db_ok e then
            (Response 500 ''Server could not update question because database connection.''
               NoData, s)
          else
            let upd = (\<lambda>q. if q_id q = i
                           then q\<lparr>q_title := t, q_description := d, q_category := c,
                                  q_updated_at := date1 e\<rparr>
                           else q);
                s' = s\<lparr>questions := map upd (questions s)\<rparr>
            in (case [q \<leftarrow> questions s'. q_id q = i] of
                  [] \<Rightarrow> (Response 404 ''Question not found.'' NoData, s')
                | q # rest \<Rightarrow>
                    (Response 200 ''Successfully updated the question.'' (QuestionData q), s'))
      | _ \<Rightarrow>
          (Response 500 ''Server could not update question because database connection.''
             NoData, s))"

text \<open>\<open>DELETE /questions/:id\<close>: the statement names the table of questions only.\<close>

definition delete_question :: "env \<Rightarrow> db \<Rightarrow> string \<Rightarrow> response \<times> db" where
  "delete_question e s ident =
     (case int_of_text ident of
        None \<Rightarrow>
          (Response 500 ''Server could not delete question because database connection.''
             NoData, s)
      | Some i \<Rightarrow>
          if \<not> db_ok e then
            (Response 500 ''Server could not delete question because database connection.''
               NoData, s)
          else if length [q \<leftarrow> questions s. q_id q = i] = 0 then
            (Response 404 ''Question not found.'' NoData, s)
          else
            (Response 200 ''Successfully deleted the question and answer.'' NoData,
             s\<lparr>questions := [q \<leftarrow> questions s. q_id q \<noteq> i]\<rparr>))"

section \<open>The routes of the answer router\<close>

definition answer_vote ::
  "string \<Rightarrow> (jsval \<Rightarrow> string) \<Rightarrow> env \<Rightarrow> db \<Rightarrow> string \<Rightarrow> jsobject \<Rightarrow> response \<times> db" where
  "answer_vote done ser e s ident body =
     (case (int_of_text ident, pg_integer ser (property body ''vote'')) of
        (Some i, Some d) \<Rightarrow>
          if \<not> db_ok e then
            (Response 500 ''Server could not vote answer because database connection.''
               NoData, s)
          else
            let newField = \<lparr>target_id = i, vote = d,
                            v_created_at = date1 e, v_updated_at = date2 e\<rparr>;
                rows = vote_statement a_id (answers s) (answer_votes s) newField;
                s' = s\<lparr>answer_votes := answer_votes s @ [newField]\<rparr>
            in (case rows of
                  [] \<Rightarrow> (Response 404 ''Answer not found.'' NoData, s')
                | (a, up, down) # rest \<Rightarrow> (Response 200 done (AnswerVote a up down), s'))
      | _ \<Rightarrow>
          (Response 500 ''Server could not vote answer because database connection.''
             NoData, s))"

definition post_answer_downvote ::
  "(jsval \<Rightarrow> string) \<Rightarrow> env \<Rightarrow> db \<Rightarrow> string \<Rightarrow> jsobject \<Rightarrow> response \<times> db" where
  "post_answer_downvote = answer_vote ''Successfully downvoted the answer.''"

definition post_answer_upvote ::
  "(jsval \<Rightarrow> string) \<Rightarrow> env \<Rightarrow> db \<Rightarrow> string \<Rightarrow> jsobject \<Rightarrow> response \<times> db" where
  "post_answer_upvote = answer_vote ''Successfully upvoted the answer.''"

section \<open>Requests through their middleware\<close>

text \<open>A route runs its middleware first; the handler runs only after \<open>next()\<close>.\<close>

definition behind :: "gate \<Rightarrow> db \<Rightarrow> response \<times> db \<Rightarrow> response \<times> db" where
  "behind g s k = (case g of Reject r \<Rightarrow> (r, s) | Next \<Rightarrow> k)"

datatype request =
    GetQuestions jsobject
  | GetQuestion string
  | GetQuestionAnswers string
  | PostQuestion jsobject
  | PostQuestionAnswer string jsobject
  | PostQuestionUpvote string jsobject
  | PostQuestionDownvote string jsobject
  | PutQuestion string jsobject
  | DeleteQuestion string
  | PostAnswerDownvote string jsobject
  | PostAnswerUpvote string jsobject

fun serve :: "(jsval \<Rightarrow> string) \<Rightarrow> env \<Rightarrow> db \<Rightarrow> request \<Rightarrow> response \<times> db" where
  "serve ser e s (GetQuestions query) =
     behind (validateQuery query) s (get_questions ser e s query)"
| "serve ser e s (GetQuestion ident) = get_question e s ident"
| "serve ser e s (GetQuestionAnswers ident) = get_question_answers e s ident"
| "serve ser e s (PostQuestion body) =
     behind (validateQuestion body) s (post_question ser e s body)"
| "serve ser e s (PostQuestionAnswer ident body) =
     behind (validateAnswer body) s (post_question_answer ser e s ident body)"
| "serve ser e s (PostQuestionUpvote ident body) =
     behind (validateQuestionUpVote body) s (post_question_upvote ser e s ident body)"
| "serve ser e s (PostQuestionDownvote ident body) =
     behind (validateQuestionDownVote body) s (post_question_downvote ser e s ident body)"
| "serve ser e s (PutQuestion ident body) =
     behind (validateQuestion body) s (put_question ser e s ident body)"
| "serve ser e s (DeleteQuestion ident) = delete_question e s ident"
| "serve ser e s (PostAnswerDownvote ident body) =
     behind (validateAnswerDownVote body) s (post_answer_downvote ser e s ident body)"
| "serve ser e s (PostAnswerUpvote ident body) =
     behind (validateAnswerUpVote body) s (post_answer_upvote ser e s ident body)"

text \<open>The store after a sequence of requests, each with its own environment.\<close>

fun serve_all :: "(jsval \<Rightarrow> string) \<Rightarrow> db \<Rightarrow> (env \<times> request) list \<Rightarrow> db" where
  "serve_all ser s [] = s"
| "serve_all ser s ((e, r) # rs) = serve_all ser (snd (serve ser e s r)) rs"

text \<open>A request that casts a vote.\<close>

fun is_vote :: "request \<Rightarrow> bool" where
  "is_vote (PostQuestionUpvote ident body) = True"
| "is_vote (PostQuestionDownvote ident body) = True"
| "is_vote (PostAnswerDownvote ident body) = True"
| "is_vote (PostAnswerUpvote ident body) = True"
| "is_vote r = False"

section \<open>Facts about the middlewares\<close>

lemma validateQuery_keys_result:
  "validateQuery_keys ks =
     (if set ks \<subseteq> {''title'', ''category''} then Next
      else Reject (Response 400 ''Please enter a correct query.'' NoData))"
  by (induction ks) auto

lemma up_gate:
  "validateQuestionUpVote body = Next \<longleftrightarrow> property body ''vote'' = JStr ''1''"
  "validateAnswerUpVote body = Next \<longleftrightarrow> property body ''vote'' = JStr ''1''"
  by (auto simp: validateQuestionUpVote_def validateAnswerUpVote_def)

lemma down_gate:
  "validateQuestionDownVote body = Next \<longleftrightarrow> property body ''vote'' = JStr ''-1''"
  "validateAnswerDownVote body = Next \<longleftrightarrow> property body ''vote'' = JStr ''-1''"
  by (auto simp: validateQuestionDownVote_def validateAnswerDownVote_def)

section \<open>Facts about the store\<close>

lemma int_of_text_literals:
  "int_of_text ''1'' = Some 1" "int_of_text ''-1'' = Some (- 1)"
  by code_simp+

lemma pg_integer_literals:
  "pg_integer ser (JStr ''1'') = Some 1" "pg_integer ser (JStr ''-1'') = Some (- 1)"
  by (simp_all add: pg_integer_def int_of_text_literals del: int_of_text.simps)

text \<open>The rows of the join, for one item and for the table of items.\<close>

lemma joined_votes:
  "concat (map (\<lambda>v. if key i = target_id v
                     then if t = target_id v then if key i = t then [(i, v)] else [] else []
                     else []) votes) =
   (if key i = t then map (Pair i) [v \<leftarrow> votes. target_id v = t] else [])"
  by (induction votes) auto

lemma joined_items:
  "[(i, v). i \<leftarrow> items, v \<leftarrow> votes, key i = target_id v, t = target_id v, key i = t] =
   concat (map (\<lambda>i. if key i = t then map (Pair i) [v \<leftarrow> votes. target_id v = t] else [])
     items)"
  by (simp only: joined_votes)

lemma joined_absent:
  "t \<notin> key ` set items \<Longrightarrow>
   concat (map (\<lambda>i. if key i = t then map (Pair i) vs else []) items) = []"
  by (induction items) auto

lemma joined_distinct:
  "distinct (map key items) \<Longrightarrow> x \<in> set items \<Longrightarrow> key x = t \<Longrightarrow>
   concat (map (\<lambda>i. if key i = t then map (Pair i) vs else []) items) = map (Pair x) vs"
proof (induction items)
  case Nil
  then show ?case by simp
next
  case (Cons y items)
  show ?case
  proof (cases "key y = t")
    case True
    with Cons.prems have "t \<notin> key ` set items" and "x = y"
      by (auto simp: image_iff)
    with True show ?thesis by (simp add: joined_absent)
  next
    case False
    with Cons show ?thesis by auto
  qed
qed

lemma joined_empty:
  "concat (map (\<lambda>i. if key i = t then map (Pair i) [v \<leftarrow> votes. target_id v = t] else [])
     items) = [] \<longleftrightarrow>
   t \<notin> key ` set items \<or> t \<notin> target_id ` set votes"
  by (induction items) (auto simp: filter_empty_conv image_iff)

lemma vote_statement_joined:
  "vote_statement key items votes nf =
     (case concat (map (\<lambda>i. if key i = target_id nf
                             then map (Pair i) [v \<leftarrow> votes. target_id v = target_id nf]
                             else []) items) of
        [] \<Rightarrow> []
      | (i, v) # rest \<Rightarrow>
          [(i, length [r \<leftarrow> concat (map (\<lambda>i. if key i = target_id nf
                             then map (Pair i) [v \<leftarrow> votes. target_id v = target_id nf]
                             else []) items). vote (snd r) = 1],
               length [r \<leftarrow> concat (map (\<lambda>i. if key i = target_id nf
                             then map (Pair i) [v \<leftarrow> votes. target_id v = target_id nf]
                             else []) items). vote (snd r) = - 1])])"
  unfolding vote_statement_def Let_def by (simp only: joined_items)

lemma vote_statement_empty:
  "vote_statement key items votes nf = [] \<longleftrightarrow>
   target_id nf \<notin> key ` set items \<or> target_id nf \<notin> target_id ` set votes"
proof -
  define j where "j = concat (map (\<lambda>i. if key i = target_id nf
                             then map (Pair i) [v \<leftarrow> votes. target_id v = target_id nf]
                             else []) items)"
  have "vote_statement key items votes nf = [] \<longleftrightarrow> j = []"
    unfolding vote_statement_joined j_def [symmetric] by (cases j) auto
  then show ?thesis unfolding j_def by (simp only: joined_empty)
qed

lemma vote_statement_distinct:
  assumes "distinct (map key items)" and "x \<in> set items" and "key x = target_id nf"
    and "target_id nf \<in> target_id ` set votes"
  shows "vote_statement key items votes nf =
    [(x, length [v \<leftarrow> votes. target_id v = target_id nf \<and> vote v = 1],
         length [v \<leftarrow> votes. target_id v = target_id nf \<and> vote v = - 1])]"
proof -
  define vs where "vs = [v \<leftarrow> votes. target_id v = target_id nf]"
  from assms(4) have nonempty: "vs \<noteq> []"
    unfolding vs_def by (auto simp: filter_empty_conv)
  have j: "concat (map (\<lambda>i. if key i = target_id nf then map (Pair i) vs else []) items) =
      map (Pair x) vs"
    using assms(1-3) by (rule joined_distinct)
  have len: "length [r \<leftarrow> map (Pair x) vs. vote (snd r) = d] =
      length [v \<leftarrow> votes. target_id v = target_id nf \<and> vote v = d]" for d
    unfolding vs_def by (simp add: filter_map comp_def)
  have "vote_statement key items votes nf =
      (case map (Pair x) vs of
         [] \<Rightarrow> []
       | (i, v) # rest \<Rightarrow>
           [(i, length [r \<leftarrow> map (Pair x) vs. vote (snd r) = 1],
                length [r \<leftarrow> map (Pair x) vs. vote (snd r) = - 1])])"
    unfolding vote_statement_joined vs_def [symmetric] j ..
  also have "\<dots> = [(x, length [r \<leftarrow> map (Pair x) vs. vote (snd r) = 1],
                        length [r \<leftarrow> map (Pair x) vs. vote (snd r) = - 1])]"
    using nonempty by (cases vs) simp_all
  finally show ?thesis by (simp only: len)
qed

section \<open>Facts about the vote handlers\<close>

lemma question_vote_runs:
  assumes "int_of_text ident = Some i" and "pg_integer ser (property body ''vote'') = Some d"
    and "db_ok e"
  shows "question_vote done ser e s ident body =
    (case vote_statement q_id (questions s) (question_votes s)
            \<lparr>target_id = i, vote = d, v_created_at = date1 e, v_updated_at = date2 e\<rparr> of
       [] \<Rightarrow> Response 404 ''Question not found.'' NoData
     | (q, up, down) # rest \<Rightarrow> Response 200 done (QuestionVote q up down),
     s\<lparr>question_votes := question_votes s @
        [\<lparr>target_id = i, vote = d, v_created_at = date1 e, v_updated_at = date2 e\<rparr>]\<rparr>)"
  using assms by (simp add: question_vote_def Let_def split: list.split)

lemma answer_vote_runs:
  assumes "int_of_text ident = Some i" and "pg_integer ser (property body ''vote'') = Some d"
    and "db_ok e"
  shows "answer_vote done ser e s ident body =
    (case vote_statement a_id (answers s) (answer_votes s)
            \<lparr>target_id = i, vote = d, v_created_at = date1 e, v_updated_at = date2 e\<rparr> of
       [] \<Rightarrow> Response 404 ''Answer not found.'' NoData
     | (a, up, down) # rest \<Rightarrow> Response 200 done (AnswerVote a up down),
     s\<lparr>answer_votes := answer_votes s @
        [\<lparr>target_id = i, vote = d, v_created_at = date1 e, v_updated_at = date2 e\<rparr>]\<rparr>)"
  using assms by (simp add: answer_vote_def Let_def split: list.split)

text \<open>
  Whatever the outcome, a vote handler leaves the store as it was or appends one row,
  whose direction is the number read from the body.
\<close>

lemma question_vote_store:
  "snd (question_vote done ser e s ident body) = s \<or>
   (\<exists>i d. pg_integer ser (property body ''vote'') = Some d \<and>
      snd (question_vote done ser e s ident body) =
        s\<lparr>question_votes := question_votes s @
          [\<lparr>target_id = i, vote = d, v_created_at = date1 e, v_updated_at = date2 e\<rparr>]\<rparr>)"
proof (cases "int_of_text ident")
  case None
  then show ?thesis by (simp add: question_vote_def)
next
  case (Some i)
  show ?thesis
  proof (cases "pg_integer ser (property body ''vote'')")
    case None
    with Some show ?thesis by (simp add: question_vote_def)
  next
    case d: (Some d)
    show ?thesis
    proof (cases "db_ok e")
      case True
      with Some d show ?thesis
        by (intro disjI2 exI [of _ i] exI [of _ d]) (simp add: question_vote_runs)
    next
      case False
      with Some d show ?thesis by (simp add: question_vote_def)
    qed
  qed
qed

lemma answer_vote_store:
  "snd (answer_vote done ser e s ident body) = s \<or>
   (\<exists>i d. pg_integer ser (property body ''vote'') = Some d \<and>
      snd (answer_vote done ser e s ident body) =
        s\<lparr>answer_votes := answer_votes s @
          [\<lparr>target_id = i, vote = d, v_created_at = date1 e, v_updated_at = date2 e\<rparr>]\<rparr>)"
proof (cases "int_of_text ident")
  case None
  then show ?thesis by (simp add: answer_vote_def)
next
  case (Some i)
  show ?thesis
  proof (cases "pg_integer ser (property body ''vote'')")
    case None
    with Some show ?thesis by (simp add: answer_vote_def)
  next
    case d: (Some d)
    show ?thesis
    proof (cases "db_ok e")
      case True
      with Some d show ?thesis
        by (intro disjI2 exI [of _ i] exI [of _ d]) (simp add: answer_vote_runs)
    next
      case False
      with Some d show ?thesis by (simp add: answer_vote_def)
    qed
  qed
qed

text \<open>The four vote routes: rejected by the middleware, or handed to the handler.\<close>

lemma serve_vote_rejected:
  "property body ''vote'' \<noteq> JStr ''1'' \<Longrightarrow>
     status (fst (serve ser e s (PostQuestionUpvote ident body))) = 400 \<and>
     snd (serve ser e s (PostQuestionUpvote ident body)) = s"
  "property body ''vote'' \<noteq> JStr ''-1'' \<Longrightarrow>
     status (fst (serve ser e s (PostQuestionDownvote ident body))) = 400 \<and>
     snd (serve ser e s (PostQuestionDownvote ident body)) = s"
  "property body ''vote'' \<noteq> JStr ''1'' \<Longrightarrow>
     status (fst (serve ser e s (PostAnswerUpvote ident body))) = 400 \<and>
     snd (serve ser e s (PostAnswerUpvote ident body)) = s"
  "property body ''vote'' \<noteq> JStr ''-1'' \<Longrightarrow>
     status (fst (serve ser e s (PostAnswerDownvote ident body))) = 400 \<and>
     snd (serve ser e s (PostAnswerDownvote ident body)) = s"
  by (simp_all add: behind_def validateQuestionUpVote_def validateQuestionDownVote_def
      validateAnswerUpVote_def validateAnswerDownVote_def)

lemma serve_vote_accepted:
  "property body ''vote'' = JStr ''1'' \<Longrightarrow>
     serve ser e s (PostQuestionUpvote ident body) =
       question_vote ''Successfully upvoted the question.'' ser e s ident body"
  "property body ''vote'' = JStr ''-1'' \<Longrightarrow>
     serve ser e s (PostQuestionDownvote ident body) =
       question_vote ''Successfully downvoted the question.'' ser e s ident body"
  "property body ''vote'' = JStr ''1'' \<Longrightarrow>
     serve ser e s (PostAnswerUpvote ident body) =
       answer_vote ''Successfully upvoted the answer.'' ser e s ident body"
  "property body ''vote'' = JStr ''-1'' \<Longrightarrow>
     serve ser e s (PostAnswerDownvote ident body) =
       answer_vote ''Successfully downvoted the answer.'' ser e s ident body"
  using up_gate [of body] down_gate [of body]
  by (simp_all add: behind_def post_question_upvote_def
      post_question_downvote_def post_answer_upvote_def post_answer_downvote_def)

text \<open>What a vote route appends to its table, and that it touches nothing else.\<close>

lemma serve_question_vote_store:
  assumes "r = PostQuestionUpvote ident body \<and> d = 1 \<or>
           r = PostQuestionDownvote ident body \<and> d = - 1"
  shows "snd (serve ser e s r) = s \<or>
    (\<exists>i. snd (serve ser e s r) =
       s\<lparr>question_votes := question_votes s @
         [\<lparr>target_id = i, vote = d, v_created_at = date1 e, v_updated_at = date2 e\<rparr>]\<rparr>)"
  using assms
proof
  assume a: "r = PostQuestionUpvote ident body \<and> d = 1"
  show ?thesis
  proof (cases "property body ''vote'' = JStr ''1''")
    case False
    then show ?thesis using serve_vote_rejected(1) [of body ser e s ident] a by blast
  next
    case v: True
    show ?thesis
      using question_vote_store [of "''Successfully upvoted the question.''" ser e s ident body]
      unfolding a [THEN conjunct1] a [THEN conjunct2] serve_vote_accepted(1) [OF v] v
        pg_integer_literals by blast
  qed
next
  assume a: "r = PostQuestionDownvote ident body \<and> d = - 1"
  show ?thesis
  proof (cases "property body ''vote'' = JStr ''-1''")
    case False
    then show ?thesis using serve_vote_rejected(2) [of body ser e s ident] a by blast
  next
    case v: True
    show ?thesis
      using question_vote_store [of "''Successfully downvoted the question.''" ser e s ident body]
      unfolding a [THEN conjunct1] a [THEN conjunct2] serve_vote_accepted(2) [OF v] v
        pg_integer_literals by blast
  qed
qed

lemma serve_answer_vote_store:
  assumes "r = PostAnswerUpvote ident body \<and> d = 1 \<or>
           r = PostAnswerDownvote ident body \<and> d = - 1"
  shows "snd (serve ser e s r) = s \<or>
    (\<exists>i. snd (serve ser e s r) =
       s\<lparr>answer_votes := answer_votes s @
         [\<lparr>target_id = i, vote = d, v_created_at = date1 e, v_updated_at = date2 e\<rparr>]\<rparr>)"
  using assms
proof
  assume a: "r = PostAnswerUpvote ident body \<and> d = 1"
  show ?thesis
  proof (cases "property body ''vote'' = JStr ''1''")
    case False
    then show ?thesis using serve_vote_rejected(3) [of body ser e s ident] a by blast
  next
    case v: True
    show ?thesis
      using answer_vote_store [of "''Successfully upvoted the answer.''" ser e s ident body]
      unfolding a [THEN conjunct1] a [THEN conjunct2] serve_vote_accepted(3) [OF v] v
        pg_integer_literals by blast
  qed
next
  assume a: "r = PostAnswerDownvote ident body \<and> d = - 1"
  show ?thesis
  proof (cases "property body ''vote'' = JStr ''-1''")
    case False
    then show ?thesis using serve_vote_rejected(4) [of body ser e s ident] a by blast
  next
    case v: True
    show ?thesis
      using answer_vote_store [of "''Successfully downvoted the answer.''" ser e s ident body]
      unfolding a [THEN conjunct1] a [THEN conjunct2] serve_vote_accepted(4) [OF v] v
        pg_integer_literals by blast
  qed
qed

lemma serve_vote_frame:
  assumes "is_vote r"
  shows "questions (snd (serve ser e s r)) = questions s \<and>
         answers (snd (serve ser e s r)) = answers s"
proof (cases r)
  case (PostQuestionUpvote ident body)
  then show ?thesis
    using serve_question_vote_store [of r ident body 1 ser e s] by auto
next
  case (PostQuestionDownvote ident body)
  then show ?thesis
    using serve_question_vote_store [of r ident body "- 1" ser e s] by auto
next
  case (PostAnswerDownvote ident body)
  then show ?thesis
    using serve_answer_vote_store [of r ident body "- 1" ser e s] by auto
next
  case (PostAnswerUpvote ident body)
  then show ?thesis
    using serve_answer_vote_store [of r ident body 1 ser e s] by auto
qed (use assms in simp_all)

text \<open>The routes that cast no vote leave both vote tables as they were.\<close>

lemma serve_other_ledger:
  assumes "\<not> is_vote r"
  shows "question_votes (snd (serve ser e s r)) = question_votes s \<and>
         answer_votes (snd (serve ser e s r)) = answer_votes s"
proof (cases r)
  case (GetQuestions query)
  then show ?thesis
    by (simp add: behind_def get_questions_def Let_def split: gate.split)
next
  case (GetQuestion ident)
  then show ?thesis
    by (simp add: get_question_def split: option.split list.split)
next
  case (GetQuestionAnswers ident)
  then show ?thesis
    by (simp add: get_question_answers_def split: option.split)
next
  case (PostQuestion body)
  then show ?thesis
    by (simp add: behind_def post_question_def Let_def split: gate.split option.split)
next
  case (PostQuestionAnswer ident body)
  then show ?thesis
    by (simp add: behind_def post_question_answer_def Let_def split: gate.split option.split)
next
  case (PutQuestion ident body)
  then show ?thesis
    by (simp add: behind_def put_question_def Let_def
        split: gate.split option.split list.split)
next
  case (DeleteQuestion ident)
  then show ?thesis
    by (simp add: delete_question_def split: option.split)
qed (use assms in simp_all)

text \<open>One request: each vote table grows at its end, by rows of direction 1 or -1.\<close>

lemma serve_ledger_step:
  "\<exists>qn an. question_votes (snd (serve ser e s r)) = question_votes s @ qn \<and>
           answer_votes (snd (serve ser e s r)) = answer_votes s @ an \<and>
           list_all (\<lambda>v. vote v = 1 \<or> vote v = - 1) qn \<and>
           list_all (\<lambda>v. vote v = 1 \<or> vote v = - 1) an"
proof (cases "is_vote r")
  case False
  then show ?thesis
    using serve_other_ledger [of r ser e s] by (intro exI [of _ "[]"]) simp
next
  case True
  then show ?thesis
  proof (cases r)
    case (PostQuestionUpvote ident body)
    from serve_question_vote_store [of r ident body 1 ser e s] PostQuestionUpvote
    consider "snd (serve ser e s r) = s"
      | i where "snd (serve ser e s r) = s\<lparr>question_votes := question_votes s @
         [\<lparr>target_id = i, vote = 1, v_created_at = date1 e, v_updated_at = date2 e\<rparr>]\<rparr>"
      by blast
    then show ?thesis
    proof cases
      case 1
      then show ?thesis by (intro exI [of _ "[]"]) simp
    next
      case 2
      then show ?thesis
        by (intro exI [of _ "[\<lparr>target_id = i, vote = 1, v_created_at = date1 e,
              v_updated_at = date2 e\<rparr>]"] exI [of _ "[]"]) simp
    qed
  next
    case (PostQuestionDownvote ident body)
    from serve_question_vote_store [of r ident body "- 1" ser e s] PostQuestionDownvote
    consider "snd (serve ser e s r) = s"
      | i where "snd (serve ser e s r) = s\<lparr>question_votes := question_votes s @
         [\<lparr>target_id = i, vote = - 1, v_created_at = date1 e, v_updated_at = date2 e\<rparr>]\<rparr>"
      by blast
    then show ?thesis
    proof cases
      case 1
      then show ?thesis by (intro exI [of _ "[]"]) simp
    next
      case 2
      then show ?thesis
        by (intro exI [of _ "[\<lparr>target_id = i, vote = - 1, v_created_at = date1 e,
              v_updated_at = date2 e\<rparr>]"] exI [of _ "[]"]) simp
    qed
  next
    case (PostAnswerDownvote ident body)
    from serve_answer_vote_store [of r ident body "- 1" ser e s] PostAnswerDownvote
    consider "snd (serve ser e s r) = s"
      | i where "snd (serve ser e s r) = s\<lparr>answer_votes := answer_votes s @
         [\<lparr>target_id = i, vote = - 1, v_created_at = date1 e, v_updated_at = date2 e\<rparr>]\<rparr>"
      by blast
    then show ?thesis
    proof cases
      case 1
      then show ?thesis by (intro exI [of _ "[]"]) simp
    next
      case 2
      then show ?thesis
        by (intro exI [of _ "[]"] exI [of _ "[\<lparr>target_id = i, vote = - 1,
              v_created_at = date1 e, v_updated_at = date2 e\<rparr>]"]) simp
    qed
  next
    case (PostAnswerUpvote ident body)
    from serve_answer_vote_store [of r ident body 1 ser e s] PostAnswerUpvote
    consider "snd (serve ser e s r) = s"
      | i where "snd (serve ser e s r) = s\<lparr>answer_votes := answer_votes s @
         [\<lparr>target_id = i, vote = 1, v_created_at = date1 e, v_updated_at = date2 e\<rparr>]\<rparr>"
      by blast
    then show ?thesis
    proof cases
      case 1
      then show ?thesis by (intro exI [of _ "[]"]) simp
    next
      case 2
      then show ?thesis
        by (intro exI [of _ "[]"] exI [of _ "[\<lparr>target_id = i, vote = 1,
              v_created_at = date1 e, v_updated_at = date2 e\<rparr>]"]) simp
    qed
  qed simp_all
qed

lemma serve_all_ledger:
  "\<exists>qn an. question_votes (serve_all ser s rs) = question_votes s @ qn \<and>
           answer_votes (serve_all ser s rs) = answer_votes s @ an \<and>
           list_all (\<lambda>v. vote v = 1 \<or> vote v = - 1) qn \<and>
           list_all (\<lambda>v. vote v = 1 \<or> vote v = - 1) an"
proof (induction rs arbitrary: s)
  case Nil
  show ?case by (intro exI [of _ "[]"]) simp
next
  case (Cons er rs)
  obtain e r where er: "er = (e, r)" by (cases er)
  obtain qn an where step:
    "question_votes (snd (serve ser e s r)) = question_votes s @ qn"
    "answer_votes (snd (serve ser e s r)) = answer_votes s @ an"
    "list_all (\<lambda>v. vote v = 1 \<or> vote v = - 1) qn"
    "list_all (\<lambda>v. vote v = 1 \<or> vote v = - 1) an"
    using serve_ledger_step [of ser e s r] by blast
  obtain qn' an' where rest:
    "question_votes (serve_all ser (snd (serve ser e s r)) rs) =
       question_votes (snd (serve ser e s r)) @ qn'"
    "answer_votes (serve_all ser (snd (serve ser e s r)) rs) =
       answer_votes (snd (serve ser e s r)) @ an'"
    "list_all (\<lambda>v. vote v = 1 \<or> vote v = - 1) qn'"
    "list_all (\<lambda>v. vote v = 1 \<or> vote v = - 1) an'"
    using Cons.IH [of "snd (serve ser e s r)"] by blast
  show ?case
    unfolding er serve_all.simps
    by (intro exI [of _ "qn @ qn'"] exI [of _ "an @ an'"]) (simp add: step rest)
qed

lemma serve_all_vote_frame:
  "list_all (\<lambda>er. is_vote (snd er)) rs \<Longrightarrow>
   questions (serve_all ser s rs) = questions s \<and> answers (serve_all ser s rs) = answers s"
proof (induction rs arbitrary: s)
  case Nil
  show ?case by simp
next
  case (Cons er rs)
  obtain e r where er: "er = (e, r)" by (cases er)
  with Cons.prems have v: "is_vote r" and vs: "list_all (\<lambda>er. is_vote (snd er)) rs"
    by simp_all
  show ?case
    unfolding er serve_all.simps
    using Cons.IH [OF vs, of "snd (serve ser e s r)"] serve_vote_frame [OF v, of ser e s]
    by simp
qed

text \<open>The response of a vote handler whose statement runs.\<close>

lemma vote_statement_row:
  assumes "vote_statement key items votes nf = (x, up, down) # rest"
  shows "x \<in> set items \<and> key x = target_id nf"
proof -
  define j where "j = concat (map (\<lambda>i. if key i = target_id nf
                             then map (Pair i) [v \<leftarrow> votes. target_id v = target_id nf]
                             else []) items)"
  from assms obtain v js where j: "j = (x, v) # js"
    unfolding vote_statement_joined j_def [symmetric] by (cases j) auto
  have "(x, v) \<in> set j" unfolding j by simp
  then show ?thesis unfolding j_def by (auto split: if_splits)
qed

lemma question_vote_absent:
  assumes "db_ok e" and "int_of_text ident = Some i"
    and "pg_integer ser (property body ''vote'') = Some d"
    and "i \<notin> q_id ` set (questions s)"
  shows "question_vote done ser e s ident body =
    (Response 404 ''Question not found.'' NoData,
     s\<lparr>question_votes := question_votes s @
        [\<lparr>target_id = i, vote = d, v_created_at = date1 e, v_updated_at = date2 e\<rparr>]\<rparr>)"
proof -
  have "vote_statement q_id (questions s) (question_votes s)
      \<lparr>target_id = i, vote = d, v_created_at = date1 e, v_updated_at = date2 e\<rparr> = []"
    using assms(4) by (simp add: vote_statement_empty)
  then show ?thesis
    by (simp add: question_vote_runs [OF assms(2,3,1)])
qed

lemma answer_vote_absent:
  assumes "db_ok e" and "int_of_text ident = Some i"
    and "pg_integer ser (property body ''vote'') = Some d"
    and "i \<notin> a_id ` set (answers s)"
  shows "answer_vote done ser e s ident body =
    (Response 404 ''Answer not found.'' NoData,
     s\<lparr>answer_votes := answer_votes s @
        [\<lparr>target_id = i, vote = d, v_created_at = date1 e, v_updated_at = date2 e\<rparr>]\<rparr>)"
proof -
  have "vote_statement a_id (answers s) (answer_votes s)
      \<lparr>target_id = i, vote = d, v_created_at = date1 e, v_updated_at = date2 e\<rparr> = []"
    using assms(4) by (simp add: vote_statement_empty)
  then show ?thesis
    by (simp add: answer_vote_runs [OF assms(2,3,1)])
qed

lemma question_vote_present:
  assumes "db_ok e" and "int_of_text ident = Some i"
    and "pg_integer ser (property body ''vote'') = Some d"
    and "i \<in> q_id ` set (questions s)" and "i \<in> target_id ` set (question_votes s)"
  shows "\<exists>q up down. fst (question_vote done ser e s ident body) =
      Response 200 done (QuestionVote q up down) \<and> q \<in> set (questions s) \<and> q_id q = i"
proof -
  let ?nf = "\<lparr>target_id = i, vote = d, v_created_at = date1 e, v_updated_at = date2 e\<rparr>"
  have "vote_statement q_id (questions s) (question_votes s) ?nf \<noteq> []"
    using assms(4,5) by (simp add: vote_statement_empty)
  then obtain q up down rest where
    rows: "vote_statement q_id (questions s) (question_votes s) ?nf = (q, up, down) # rest"
    by (cases "vote_statement q_id (questions s) (question_votes s) ?nf") auto
  from vote_statement_row [OF rows] have "q \<in> set (questions s) \<and> q_id q = i" by simp
  then show ?thesis
    by (simp add: question_vote_runs [OF assms(2,3,1)] rows)
qed

lemma answer_vote_present:
  assumes "db_ok e" and "int_of_text ident = Some i"
    and "pg_integer ser (property body ''vote'') = Some d"
    and "i \<in> a_id ` set (answers s)" and "i \<in> target_id ` set (answer_votes s)"
  shows "\<exists>a up down. fst (answer_vote done ser e s ident body) =
      Response 200 done (AnswerVote a up down) \<and> a \<in> set (answers s) \<and> a_id a = i"
proof -
  let ?nf = "\<lparr>target_id = i, vote = d, v_created_at = date1 e, v_updated_at = date2 e\<rparr>"
  have "vote_statement a_id (answers s) (answer_votes s) ?nf \<noteq> []"
    using assms(4,5) by (simp add: vote_statement_empty)
  then obtain a up down rest where
    rows: "vote_statement a_id (answers s) (answer_votes s) ?nf = (a, up, down) # rest"
    by (cases "vote_statement a_id (answers s) (answer_votes s) ?nf") auto
  from vote_statement_row [OF rows] have "a \<in> set (answers s) \<and> a_id a = i" by simp
  then show ?thesis
    by (simp add: answer_vote_runs [OF assms(2,3,1)] rows)
qed

text \<open>
  The first cast on a target: the vote table holds no earlier row of the target, the
  join of the select is empty, and the answer is 404 whether or not the item exists.
  The row is inserted all the same.
\<close>

lemma first_vote_is_answered_404:
  assumes "db_ok e" and "int_of_text ident = Some i"
    and "pg_integer ser (property body ''vote'') = Some d"
  shows "i \<notin> target_id ` set (question_votes s) \<Longrightarrow>
      question_vote done ser e s ident body =
        (Response 404 ''Question not found.'' NoData,
         s\<lparr>question_votes := question_votes s @
           [\<lparr>target_id = i, vote = d, v_created_at = date1 e, v_updated_at = date2 e\<rparr>]\<rparr>)"
    and "i \<notin> target_id ` set (answer_votes s) \<Longrightarrow>
      answer_vote done ser e s ident body =
        (Response 404 ''Answer not found.'' NoData,
         s\<lparr>answer_votes := answer_votes s @
           [\<lparr>target_id = i, vote = d, v_created_at = date1 e, v_updated_at = date2 e\<rparr>]\<rparr>)"
proof -
  assume "i \<notin> target_id ` set (question_votes s)"
  then have "vote_statement q_id (questions s) (question_votes s)
      \<lparr>target_id = i, vote = d, v_created_at = date1 e, v_updated_at = date2 e\<rparr> = []"
    by (simp add: vote_statement_empty)
  then show "question_vote done ser e s ident body =
        (Response 404 ''Question not found.'' NoData,
         s\<lparr>question_votes := question_votes s @
           [\<lparr>target_id = i, vote = d, v_created_at = date1 e, v_updated_at = date2 e\<rparr>]\<rparr>)"
    by (simp add: question_vote_runs [OF assms(2,3,1)])
next
  assume "i \<notin> target_id ` set (answer_votes s)"
  then have "vote_statement a_id (answers s) (answer_votes s)
      \<lparr>target_id = i, vote = d, v_created_at = date1 e, v_updated_at = date2 e\<rparr> = []"
    by (simp add: vote_statement_empty)
  then show "answer_vote done ser e s ident body =
        (Response 404 ''Answer not found.'' NoData,
         s\<lparr>answer_votes := answer_votes s @
           [\<lparr>target_id = i, vote = d, v_created_at = date1 e, v_updated_at = date2 e\<rparr>]\<rparr>)"
    by (simp add: answer_vote_runs [OF assms(2,3,1)])
qed

lemma first_upvote_of_existing_question:
  "serve (\<lambda>v. [])
     \<lparr>db_ok = True, date1 = 100, date2 = 100\<rparr>
     \<lparr>questions = [\<lparr>q_id = 5, q_title = ''t'', q_description = ''d'', q_category = ''c'',
                     q_created_at = 10, q_updated_at = 10\<rparr>],
       answers = [], question_votes = [], answer_votes = [],
       question_seq = 6, answer_seq = 1\<rparr>
     (PostQuestionUpvote ''5'' [(''vote'', JStr ''1'')]) =
   (Response 404 ''Question not found.'' NoData,
    \<lparr>questions = [\<lparr>q_id = 5, q_title = ''t'', q_description = ''d'', q_category = ''c'',
                     q_created_at = 10, q_updated_at = 10\<rparr>],
       answers = [],
       question_votes = [\<lparr>target_id = 5, vote = 1, v_created_at = 100, v_updated_at = 100\<rparr>],
       answer_votes = [], question_seq = 6, answer_seq = 1\<rparr>)"
proof -
  have i: "int_of_text ''5'' = Some 5" by code_simp
  have v: "property [(''vote'', JStr ''1'')] ''vote'' = JStr ''1''"
    by (simp add: property_def)
  show ?thesis
    unfolding serve_vote_accepted(1) [OF v]
    by (subst first_vote_is_answered_404(1) [OF _ i, where d = 1])
      (simp_all add: v pg_integer_literals)
qed

section \<open>The claims\<close>

text \<open>
  C1 (the code does not do this). The claim: the tally in the response of an accepted
  cast counts every vote of the target including the one just inserted, so that after
  \<open>N\<close> upvotes and \<open>M\<close> downvotes an upvote answers \<open>N + 1\<close> and \<open>M\<close>. What the
  statement computes: the select scans the vote table as it was before the insert, so
  for a question that exists and already has a vote the response carries exactly the
  \<open>N\<close> upvotes and \<open>M\<close> downvotes cast before, without the new one. (The ids of the
  questions are distinct: the select groups by \<open>questions.id\<close> alone and reads the
  other columns of the question, which PostgreSQL allows for a primary key only.)
\<close>

theorem cast_vote_tally_counts_earlier_votes_only:
  assumes "db_ok e" and "int_of_text ident = Some i"
    and "distinct (map q_id (questions s))"
    and "q \<in> set (questions s)" and "q_id q = i"
    and "i \<in> target_id ` set (question_votes s)"
  shows "(property body ''vote'' = JStr ''1'' \<longrightarrow>
            fst (serve ser e s (PostQuestionUpvote ident body)) =
              Response 200 ''Successfully upvoted the question.''
                (QuestionVote q
                   (length [v \<leftarrow> question_votes s. target_id v = i \<and> vote v = 1])
                   (length [v \<leftarrow> question_votes s. target_id v = i \<and> vote v = - 1]))) \<and>
         (property body ''vote'' = JStr ''-1'' \<longrightarrow>
            fst (serve ser e s (PostQuestionDownvote ident body)) =
              Response 200 ''Successfully downvoted the question.''
                (QuestionVote q
                   (length [v \<leftarrow> question_votes s. target_id v = i \<and> vote v = 1])
                   (length [v \<leftarrow> question_votes s. target_id v = i \<and> vote v = - 1])))"
proof -
  have rows: "vote_statement q_id (questions s) (question_votes s)
       \<lparr>target_id = i, vote = d, v_created_at = date1 e, v_updated_at = date2 e\<rparr> =
     [(q, length [v \<leftarrow> question_votes s. target_id v = i \<and> vote v = 1],
          length [v \<leftarrow> question_votes s. target_id v = i \<and> vote v = - 1])]" for d
    using vote_statement_distinct [of q_id "questions s" q
        "\<lparr>target_id = i, vote = d, v_created_at = date1 e, v_updated_at = date2 e\<rparr>"
        "question_votes s"] assms(3-6)
    by simp
  show ?thesis
    using assms(1,2)
    by (simp add: serve_vote_accepted question_vote_runs pg_integer_literals rows
        del: serve.simps)
qed

text \<open>
  At this input question 5 has one upvote; a second upvote is answered with
  \<open>upvote = 1\<close>, not 2.
\<close>

theorem cast_vote_tally_counts_earlier_votes_only_witness:
  "fst (serve (\<lambda>v. [])
     \<lparr>db_ok = True, date1 = 100, date2 = 100\<rparr>
     \<lparr>questions = [\<lparr>q_id = 5, q_title = ''t'', q_description = ''d'', q_category = ''c'',
                     q_created_at = 10, q_updated_at = 10\<rparr>],
       answers = [],
       question_votes = [\<lparr>target_id = 5, vote = 1, v_created_at = 50, v_updated_at = 50\<rparr>],
       answer_votes = [], question_seq = 6, answer_seq = 1\<rparr>
     (PostQuestionUpvote ''5'' [(''vote'', JStr ''1'')])) =
   Response 200 ''Successfully upvoted the question.''
     (QuestionVote \<lparr>q_id = 5, q_title = ''t'', q_description = ''d'', q_category = ''c'',
                     q_created_at = 10, q_updated_at = 10\<rparr> 1 0)"
proof -
  have i: "int_of_text ''5'' = Some 5" by code_simp
  show ?thesis
    using cast_vote_tally_counts_earlier_votes_only
      [of "\<lparr>db_ok = True, date1 = 100, date2 = 100\<rparr>" "''5''" 5
        "\<lparr>questions = [\<lparr>q_id = 5, q_title = ''t'', q_description = ''d'', q_category = ''c'',
                     q_created_at = 10, q_updated_at = 10\<rparr>],
          answers = [],
          question_votes = [\<lparr>target_id = 5, vote = 1, v_created_at = 50, v_updated_at = 50\<rparr>],
          answer_votes = [], question_seq = 6, answer_seq = 1\<rparr>"
        "\<lparr>q_id = 5, q_title = ''t'', q_description = ''d'', q_category = ''c'',
                     q_created_at = 10, q_updated_at = 10\<rparr>"
        "[(''vote'', JStr ''1'')]" "\<lambda>v. []", OF _ i]
    by (simp add: property_def del: serve.simps)
qed

text \<open>
  C2 (as stated, false). The claim: a cast is answered 404 exactly when no item has the
  target id, whatever the direction. At this input the target does not exist, the
  direction is not the one the route wants, and the answer is the 400 of the middleware,
  which runs before the store is asked.
\<close>

theorem missing_target_invalid_direction_counterexample:
  "status (fst (serve (\<lambda>v. [])
     \<lparr>db_ok = True, date1 = 100, date2 = 100\<rparr>
     \<lparr>questions = [], answers = [], question_votes = [], answer_votes = [],
       question_seq = 1, answer_seq = 1\<rparr>
     (PostQuestionUpvote ''999'' [(''vote'', JStr ''-1'')]))) = 400"
  by (simp add: behind_def validateQuestionUpVote_def property_def)

text \<open>
  C2 (amended). A cast whose direction is not the literal of its route is answered 400,
  whether or not the target exists. A cast with the right direction whose statement
  runs (the store is reached and reads the id as a number) is answered 404 when no
  item has the target id, and 200 with the item and a tally when the item exists and
  already has a vote.
\<close>

theorem cast_vote_status:
  "(property body ''vote'' \<noteq> JStr ''1'' \<longrightarrow>
      status (fst (serve ser e s (PostQuestionUpvote ident body))) = 400 \<and>
      status (fst (serve ser e s (PostAnswerUpvote ident body))) = 400) \<and>
   (property body ''vote'' \<noteq> JStr ''-1'' \<longrightarrow>
      status (fst (serve ser e s (PostQuestionDownvote ident body))) = 400 \<and>
      status (fst (serve ser e s (PostAnswerDownvote ident body))) = 400) \<and>
   (db_ok e \<and> int_of_text ident = Some i \<and> i \<notin> q_id ` set (questions s) \<longrightarrow>
      (property body ''vote'' = JStr ''1'' \<longrightarrow>
         status (fst (serve ser e s (PostQuestionUpvote ident body))) = 404) \<and>
      (property body ''vote'' = JStr ''-1'' \<longrightarrow>
         status (fst (serve ser e s (PostQuestionDownvote ident body))) = 404)) \<and>
   (db_ok e \<and> int_of_text ident = Some i \<and> i \<notin> a_id ` set (answers s) \<longrightarrow>
      (property body ''vote'' = JStr ''1'' \<longrightarrow>
         status (fst (serve ser e s (PostAnswerUpvote ident body))) = 404) \<and>
      (property body ''vote'' = JStr ''-1'' \<longrightarrow>
         status (fst (serve ser e s (PostAnswerDownvote ident body))) = 404)) \<and>
   (db_ok e \<and> int_of_text ident = Some i \<and> i \<in> q_id ` set (questions s) \<and>
    i \<in> target_id ` set (question_votes s) \<longrightarrow>
      (property body ''vote'' = JStr ''1'' \<longrightarrow>
         (\<exists>q up down. fst (serve ser e s (PostQuestionUpvote ident body)) =
            Response 200 ''Successfully upvoted the question.'' (QuestionVote q up down) \<and>
            q \<in> set (questions s) \<and> q_id q = i)) \<and>
      (property body ''vote'' = JStr ''-1'' \<longrightarrow>
         (\<exists>q up down. fst (serve ser e s (PostQuestionDownvote ident body)) =
            Response 200 ''Successfully downvoted the question.'' (QuestionVote q up down) \<and>
            q \<in> set (questions s) \<and> q_id q = i))) \<and>
   (db_ok e \<and> int_of_text ident = Some i \<and> i \<in> a_id ` set (answers s) \<and>
    i \<in> target_id ` set (answer_votes s) \<longrightarrow>
      (property body ''vote'' = JStr ''1'' \<longrightarrow>
         (\<exists>a up down. fst (serve ser e s (PostAnswerUpvote ident body)) =
            Response 200 ''Successfully upvoted the answer.'' (AnswerVote a up down) \<and>
            a \<in> set (answers s) \<and> a_id a = i)) \<and>
      (property body ''vote'' = JStr ''-1'' \<longrightarrow>
         (\<exists>a up down. fst (serve ser e s (PostAnswerDownvote ident body)) =
            Response 200 ''Successfully downvoted the answer.'' (AnswerVote a up down) \<and>
            a \<in> set (answers s) \<and> a_id a = i)))"
proof (intro conjI impI; (elim conjE)?)
  assume "property body ''vote'' \<noteq> JStr ''1''"
  then show "status (fst (serve ser e s (PostQuestionUpvote ident body))) = 400"
    and "status (fst (serve ser e s (PostAnswerUpvote ident body))) = 400"
    by (simp_all add: serve_vote_rejected del: serve.simps)
next
  assume "property body ''vote'' \<noteq> JStr ''-1''"
  then show "status (fst (serve ser e s (PostQuestionDownvote ident body))) = 400"
    and "status (fst (serve ser e s (PostAnswerDownvote ident body))) = 400"
    by (simp_all add: serve_vote_rejected del: serve.simps)
next
  assume "db_ok e" "int_of_text ident = Some i" "i \<notin> q_id ` set (questions s)"
    and v: "property body ''vote'' = JStr ''1''"
  then show "status (fst (serve ser e s (PostQuestionUpvote ident body))) = 404"
    by (simp add: serve_vote_accepted(1) [OF v] question_vote_absent pg_integer_literals
        del: serve.simps)
next
  assume "db_ok e" "int_of_text ident = Some i" "i \<notin> q_id ` set (questions s)"
    and v: "property body ''vote'' = JStr ''-1''"
  then show "status (fst (serve ser e s (PostQuestionDownvote ident body))) = 404"
    by (simp add: serve_vote_accepted(2) [OF v] question_vote_absent pg_integer_literals
        del: serve.simps)
next
  assume "db_ok e" "int_of_text ident = Some i" "i \<notin> a_id ` set (answers s)"
    and v: "property body ''vote'' = JStr ''1''"
  then show "status (fst (serve ser e s (PostAnswerUpvote ident body))) = 404"
    by (simp add: serve_vote_accepted(3) [OF v] answer_vote_absent pg_integer_literals
        del: serve.simps)
next
  assume "db_ok e" "int_of_text ident = Some i" "i \<notin> a_id ` set (answers s)"
    and v: "property body ''vote'' = JStr ''-1''"
  then show "status (fst (serve ser e s (PostAnswerDownvote ident body))) = 404"
    by (simp add: serve_vote_accepted(4) [OF v] answer_vote_absent pg_integer_literals
        del: serve.simps)
next
  assume a: "db_ok e" "int_of_text ident = Some i" "i \<in> q_id ` set (questions s)"
    "i \<in> target_id ` set (question_votes s)"
    and v: "property body ''vote'' = JStr ''1''"
  have d: "pg_integer ser (property body ''vote'') = Some 1"
    by (simp add: v pg_integer_literals)
  show "\<exists>q up down. fst (serve ser e s (PostQuestionUpvote ident body)) =
      Response 200 ''Successfully upvoted the question.'' (QuestionVote q up down) \<and>
      q \<in> set (questions s) \<and> q_id q = i"
    unfolding serve_vote_accepted(1) [OF v]
    by (rule question_vote_present [OF a(1,2) d a(3,4)])
next
  assume a: "db_ok e" "int_of_text ident = Some i" "i \<in> q_id ` set (questions s)"
    "i \<in> target_id ` set (question_votes s)"
    and v: "property body ''vote'' = JStr ''-1''"
  have d: "pg_integer ser (property body ''vote'') = Some (- 1)"
    by (simp add: v pg_integer_literals)
  show "\<exists>q up down. fst (serve ser e s (PostQuestionDownvote ident body)) =
      Response 200 ''Successfully downvoted the question.'' (QuestionVote q up down) \<and>
      q \<in> set (questions s) \<and> q_id q = i"
    unfolding serve_vote_accepted(2) [OF v]
    by (rule question_vote_present [OF a(1,2) d a(3,4)])
next
  assume a: "db_ok e" "int_of_text ident = Some i" "i \<in> a_id ` set (answers s)"
    "i \<in> target_id ` set (answer_votes s)"
    and v: "property body ''vote'' = JStr ''1''"
  have d: "pg_integer ser (property body ''vote'') = Some 1"
    by (simp add: v pg_integer_literals)
  show "\<exists>a up down. fst (serve ser e s (PostAnswerUpvote ident body)) =
      Response 200 ''Successfully upvoted the answer.'' (AnswerVote a up down) \<and>
      a \<in> set (answers s) \<and> a_id a = i"
    unfolding serve_vote_accepted(3) [OF v]
    by (rule answer_vote_present [OF a(1,2) d a(3,4)])
next
  assume a: "db_ok e" "int_of_text ident = Some i" "i \<in> a_id ` set (answers s)"
    "i \<in> target_id ` set (answer_votes s)"
    and v: "property body ''vote'' = JStr ''-1''"
  have d: "pg_integer ser (property body ''vote'') = Some (- 1)"
    by (simp add: v pg_integer_literals)
  show "\<exists>a up down. fst (serve ser e s (PostAnswerDownvote ident body)) =
      Response 200 ''Successfully downvoted the answer.'' (AnswerVote a up down) \<and>
      a \<in> set (answers s) \<and> a_id a = i"
    unfolding serve_vote_accepted(4) [OF v]
    by (rule answer_vote_present [OF a(1,2) d a(3,4)])
qed

theorem cast_vote_status_witness:
  "status (fst (serve (\<lambda>v. [])
     \<lparr>db_ok = True, date1 = 100, date2 = 100\<rparr>
     \<lparr>questions = [\<lparr>q_id = 5, q_title = ''t'', q_description = ''d'', q_category = ''c'',
                     q_created_at = 10, q_updated_at = 10\<rparr>],
       answers = [],
       question_votes = [\<lparr>target_id = 5, vote = 1, v_created_at = 50, v_updated_at = 50\<rparr>],
       answer_votes = [], question_seq = 6, answer_seq = 1\<rparr>
     (PostQuestionUpvote ''999'' [(''vote'', JStr ''1'')]))) = 404 \<and>
   status (fst (serve (\<lambda>v. [])
     \<lparr>db_ok = True, date1 = 100, date2 = 100\<rparr>
     \<lparr>questions = [\<lparr>q_id = 5, q_title = ''t'', q_description = ''d'', q_category = ''c'',
                     q_created_at = 10, q_updated_at = 10\<rparr>],
       answers = [],
       question_votes = [\<lparr>target_id = 5, vote = 1, v_created_at = 50, v_updated_at = 50\<rparr>],
       answer_votes = [], question_seq = 6, answer_seq = 1\<rparr>
     (PostQuestionUpvote ''999'' [(''vote'', JNum 1)]))) = 400 \<and>
   status (fst (serve (\<lambda>v. [])
     \<lparr>db_ok = True, date1 = 100, date2 = 100\<rparr>
     \<lparr>questions = [\<lparr>q_id = 5, q_title = ''t'', q_description = ''d'', q_category = ''c'',
                     q_created_at = 10, q_updated_at = 10\<rparr>],
       answers = [],
       question_votes = [\<lparr>target_id = 5, vote = 1, v_created_at = 50, v_updated_at = 50\<rparr>],
       answer_votes = [], question_seq = 6, answer_seq = 1\<rparr>
     (PostQuestionDownvote ''5'' [(''vote'', JStr ''-1'')]))) = 200"
proof -
  let ?e = "\<lparr>db_ok = True, date1 = 100, date2 = 100\<rparr>"
  let ?s = "\<lparr>questions = [\<lparr>q_id = 5, q_title = ''t'', q_description = ''d'',
                     q_category = ''c'', q_created_at = 10, q_updated_at = 10\<rparr>],
       answers = [],
       question_votes = [\<lparr>target_id = 5, vote = 1, v_created_at = 50, v_updated_at = 50\<rparr>],
       answer_votes = [], question_seq = 6, answer_seq = 1\<rparr>"
  have i: "int_of_text ''999'' = Some 999" "int_of_text ''5'' = Some 5" by code_simp+
  have "status (fst (serve (\<lambda>v. []) ?e ?s (PostQuestionUpvote ''999'' [(''vote'', JStr ''1'')])))
      = 404"
    using cast_vote_status [of "[(''vote'', JStr ''1'')]" "\<lambda>v. []" ?e ?s "''999''" 999]
    by (simp add: property_def i del: serve.simps int_of_text.simps)
  moreover
  have "status (fst (serve (\<lambda>v. []) ?e ?s (PostQuestionUpvote ''999'' [(''vote'', JNum 1)])))
      = 400"
    using cast_vote_status [of "[(''vote'', JNum 1)]" "\<lambda>v. []" ?e ?s "''999''" 999]
    by (simp add: property_def del: serve.simps int_of_text.simps)
  moreover
  have "status (fst (serve (\<lambda>v. []) ?e ?s
      (PostQuestionDownvote ''5'' [(''vote'', JStr ''-1'')]))) = 200"
    using cast_vote_status [of "[(''vote'', JStr ''-1'')]" "\<lambda>v. []" ?e ?s "''5''" 5]
    by (auto simp add: property_def i simp del: serve.simps int_of_text.simps)
  ultimately show ?thesis by (simp only: simp_thms)
qed

text \<open>
  C3. A request to the upvote route whose \<open>vote\<close> is not the string \<open>"1"\<close> is answered
  400 and the store is left as it was; with \<open>"1"\<close>, once the statement runs, exactly one
  row of direction 1 is appended to the vote table of the target kind. The downvote
  route is the same with \<open>"-1"\<close> and direction -1. Whatever the request, the rows the
  upvote route adds have direction 1 and the rows the downvote route adds have
  direction -1.
\<close>

theorem endpoint_direction_binding:
  "(property body ''vote'' \<noteq> JStr ''1'' \<longrightarrow>
      status (fst (serve ser e s (PostQuestionUpvote ident body))) = 400 \<and>
      snd (serve ser e s (PostQuestionUpvote ident body)) = s \<and>
      status (fst (serve ser e s (PostAnswerUpvote ident body))) = 400 \<and>
      snd (serve ser e s (PostAnswerUpvote ident body)) = s) \<and>
   (property body ''vote'' \<noteq> JStr ''-1'' \<longrightarrow>
      status (fst (serve ser e s (PostQuestionDownvote ident body))) = 400 \<and>
      snd (serve ser e s (PostQuestionDownvote ident body)) = s \<and>
      status (fst (serve ser e s (PostAnswerDownvote ident body))) = 400 \<and>
      snd (serve ser e s (PostAnswerDownvote ident body)) = s) \<and>
   (property body ''vote'' = JStr ''1'' \<and> db_ok e \<and> int_of_text ident = Some i \<longrightarrow>
      snd (serve ser e s (PostQuestionUpvote ident body)) =
        s\<lparr>question_votes := question_votes s @
          [\<lparr>target_id = i, vote = 1, v_created_at = date1 e, v_updated_at = date2 e\<rparr>]\<rparr> \<and>
      snd (serve ser e s (PostAnswerUpvote ident body)) =
        s\<lparr>answer_votes := answer_votes s @
          [\<lparr>target_id = i, vote = 1, v_created_at = date1 e, v_updated_at = date2 e\<rparr>]\<rparr>) \<and>
   (property body ''vote'' = JStr ''-1'' \<and> db_ok e \<and> int_of_text ident = Some i \<longrightarrow>
      snd (serve ser e s (PostQuestionDownvote ident body)) =
        s\<lparr>question_votes := question_votes s @
          [\<lparr>target_id = i, vote = - 1, v_created_at = date1 e, v_updated_at = date2 e\<rparr>]\<rparr> \<and>
      snd (serve ser e s (PostAnswerDownvote ident body)) =
        s\<lparr>answer_votes := answer_votes s @
          [\<lparr>target_id = i, vote = - 1, v_created_at = date1 e, v_updated_at = date2 e\<rparr>]\<rparr>) \<and>
   list_all (\<lambda>v. vote v = 1) (drop (length (question_votes s))
     (question_votes (snd (serve ser e s (PostQuestionUpvote ident body))))) \<and>
   list_all (\<lambda>v. vote v = 1) (drop (length (answer_votes s))
     (answer_votes (snd (serve ser e s (PostAnswerUpvote ident body))))) \<and>
   list_all (\<lambda>v. vote v = - 1) (drop (length (question_votes s))
     (question_votes (snd (serve ser e s (PostQuestionDownvote ident body))))) \<and>
   list_all (\<lambda>v. vote v = - 1) (drop (length (answer_votes s))
     (answer_votes (snd (serve ser e s (PostAnswerDownvote ident body)))))"
proof -
  have rejected_up: "property body ''vote'' \<noteq> JStr ''1'' \<longrightarrow>
      status (fst (serve ser e s (PostQuestionUpvote ident body))) = 400 \<and>
      snd (serve ser e s (PostQuestionUpvote ident body)) = s \<and>
      status (fst (serve ser e s (PostAnswerUpvote ident body))) = 400 \<and>
      snd (serve ser e s (PostAnswerUpvote ident body)) = s"
    using serve_vote_rejected(1,3) [of body ser e s ident] by blast
  have rejected_down: "property body ''vote'' \<noteq> JStr ''-1'' \<longrightarrow>
      status (fst (serve ser e s (PostQuestionDownvote ident body))) = 400 \<and>
      snd (serve ser e s (PostQuestionDownvote ident body)) = s \<and>
      status (fst (serve ser e s (PostAnswerDownvote ident body))) = 400 \<and>
      snd (serve ser e s (PostAnswerDownvote ident body)) = s"
    using serve_vote_rejected(2,4) [of body ser e s ident] by blast
  have accepted_up:
    "property body ''vote'' = JStr ''1'' \<and> db_ok e \<and> int_of_text ident = Some i \<longrightarrow>
      snd (serve ser e s (PostQuestionUpvote ident body)) =
        s\<lparr>question_votes := question_votes s @
          [\<lparr>target_id = i, vote = 1, v_created_at = date1 e, v_updated_at = date2 e\<rparr>]\<rparr> \<and>
      snd (serve ser e s (PostAnswerUpvote ident body)) =
        s\<lparr>answer_votes := answer_votes s @
          [\<lparr>target_id = i, vote = 1, v_created_at = date1 e, v_updated_at = date2 e\<rparr>]\<rparr>"
    by (simp add: serve_vote_accepted question_vote_runs answer_vote_runs
        pg_integer_literals del: serve.simps)
  have accepted_down:
    "property body ''vote'' = JStr ''-1'' \<and> db_ok e \<and> int_of_text ident = Some i \<longrightarrow>
      snd (serve ser e s (PostQuestionDownvote ident body)) =
        s\<lparr>question_votes := question_votes s @
          [\<lparr>target_id = i, vote = - 1, v_created_at = date1 e, v_updated_at = date2 e\<rparr>]\<rparr> \<and>
      snd (serve ser e s (PostAnswerDownvote ident body)) =
        s\<lparr>answer_votes := answer_votes s @
          [\<lparr>target_id = i, vote = - 1, v_created_at = date1 e, v_updated_at = date2 e\<rparr>]\<rparr>"
    by (simp add: serve_vote_accepted question_vote_runs answer_vote_runs
        pg_integer_literals del: serve.simps)
  have new_qu: "list_all (\<lambda>v. vote v = 1) (drop (length (question_votes s))
     (question_votes (snd (serve ser e s (PostQuestionUpvote ident body)))))"
    using serve_question_vote_store [of "PostQuestionUpvote ident body" ident body 1 ser e s]
    by auto
  have new_au: "list_all (\<lambda>v. vote v = 1) (drop (length (answer_votes s))
     (answer_votes (snd (serve ser e s (PostAnswerUpvote ident body)))))"
    using serve_answer_vote_store [of "PostAnswerUpvote ident body" ident body 1 ser e s]
    by auto
  have new_qd: "list_all (\<lambda>v. vote v = - 1) (drop (length (question_votes s))
     (question_votes (snd (serve ser e s (PostQuestionDownvote ident body)))))"
    using serve_question_vote_store
      [of "PostQuestionDownvote ident body" ident body "- 1" ser e s]
    by auto
  have new_ad: "list_all (\<lambda>v. vote v = - 1) (drop (length (answer_votes s))
     (answer_votes (snd (serve ser e s (PostAnswerDownvote ident body)))))"
    using serve_answer_vote_store [of "PostAnswerDownvote ident body" ident body "- 1" ser e s]
    by auto
  from rejected_up rejected_down accepted_up accepted_down new_qu new_au new_qd new_ad
  show ?thesis by (intro conjI)
qed

theorem endpoint_direction_binding_witness:
  "snd (serve (\<lambda>v. [])
     \<lparr>db_ok = True, date1 = 100, date2 = 101\<rparr>
     \<lparr>questions = [], answers = [], question_votes = [], answer_votes = [],
       question_seq = 1, answer_seq = 1\<rparr>
     (PostQuestionUpvote ''5'' [(''vote'', JStr ''-1'')])) =
   \<lparr>questions = [], answers = [], question_votes = [], answer_votes = [],
     question_seq = 1, answer_seq = 1\<rparr> \<and>
   snd (serve (\<lambda>v. [])
     \<lparr>db_ok = True, date1 = 100, date2 = 101\<rparr>
     \<lparr>questions = [], answers = [], question_votes = [], answer_votes = [],
       question_seq = 1, answer_seq = 1\<rparr>
     (PostQuestionUpvote ''5'' [(''vote'', JStr ''1'')])) =
   \<lparr>questions = [], answers = [],
     question_votes = [\<lparr>target_id = 5, vote = 1, v_created_at = 100, v_updated_at = 101\<rparr>],
     answer_votes = [], question_seq = 1, answer_seq = 1\<rparr> \<and>
   snd (serve (\<lambda>v. [])
     \<lparr>db_ok = True, date1 = 100, date2 = 101\<rparr>
     \<lparr>questions = [], answers = [], question_votes = [], answer_votes = [],
       question_seq = 1, answer_seq = 1\<rparr>
     (PostAnswerDownvote ''5'' [(''vote'', JStr ''-1'')])) =
   \<lparr>questions = [], answers = [], question_votes = [],
     answer_votes = [\<lparr>target_id = 5, vote = - 1, v_created_at = 100, v_updated_at = 101\<rparr>],
     question_seq = 1, answer_seq = 1\<rparr>"
proof -
  let ?e = "\<lparr>db_ok = True, date1 = 100, date2 = 101\<rparr>"
  let ?s = "\<lparr>questions = [], answers = [], question_votes = [], answer_votes = [],
       question_seq = 1, answer_seq = 1\<rparr>"
  have i: "int_of_text ''5'' = Some 5" by code_simp
  have "snd (serve (\<lambda>v. []) ?e ?s (PostQuestionUpvote ''5'' [(''vote'', JStr ''-1'')])) = ?s"
    using endpoint_direction_binding [of "[(''vote'', JStr ''-1'')]" "\<lambda>v. []" ?e ?s "''5''" 5]
    by (simp add: property_def i del: serve.simps int_of_text.simps)
  moreover
  have "snd (serve (\<lambda>v. []) ?e ?s (PostQuestionUpvote ''5'' [(''vote'', JStr ''1'')])) =
      \<lparr>questions = [], answers = [],
        question_votes = [\<lparr>target_id = 5, vote = 1, v_created_at = 100, v_updated_at = 101\<rparr>],
        answer_votes = [], question_seq = 1, answer_seq = 1\<rparr>"
    using endpoint_direction_binding [of "[(''vote'', JStr ''1'')]" "\<lambda>v. []" ?e ?s "''5''" 5]
    by (simp add: property_def i del: serve.simps int_of_text.simps)
  moreover
  have "snd (serve (\<lambda>v. []) ?e ?s (PostAnswerDownvote ''5'' [(''vote'', JStr ''-1'')])) =
      \<lparr>questions = [], answers = [], question_votes = [],
        answer_votes = [\<lparr>target_id = 5, vote = - 1, v_created_at = 100, v_updated_at = 101\<rparr>],
        question_seq = 1, answer_seq = 1\<rparr>"
    using endpoint_direction_binding [of "[(''vote'', JStr ''-1'')]" "\<lambda>v. []" ?e ?s "''5''" 5]
    by (simp add: property_def i del: serve.simps int_of_text.simps)
  ultimately show ?thesis by (simp only: simp_thms)
qed

text \<open>
  C4. A cast with the right direction against a target id that no item has, whose
  statement runs, is answered 404 and the vote row is in the store all the same: the
  insert does not depend on the target, and nothing takes the row back.
\<close>

theorem orphaned_vote_on_not_found:
  assumes "db_ok e" and "int_of_text ident = Some i"
  shows
   "(property body ''vote'' = JStr ''1'' \<and> i \<notin> q_id ` set (questions s) \<longrightarrow>
       serve ser e s (PostQuestionUpvote ident body) =
         (Response 404 ''Question not found.'' NoData,
          s\<lparr>question_votes := question_votes s @
            [\<lparr>target_id = i, vote = 1, v_created_at = date1 e, v_updated_at = date2 e\<rparr>]\<rparr>)) \<and>
    (property body ''vote'' = JStr ''-1'' \<and> i \<notin> q_id ` set (questions s) \<longrightarrow>
       serve ser e s (PostQuestionDownvote ident body) =
         (Response 404 ''Question not found.'' NoData,
          s\<lparr>question_votes := question_votes s @
            [\<lparr>target_id = i, vote = - 1, v_created_at = date1 e, v_updated_at = date2 e\<rparr>]\<rparr>)) \<and>
    (property body ''vote'' = JStr ''1'' \<and> i \<notin> a_id ` set (answers s) \<longrightarrow>
       serve ser e s (PostAnswerUpvote ident body) =
         (Response 404 ''Answer not found.'' NoData,
          s\<lparr>answer_votes := answer_votes s @
            [\<lparr>target_id = i, vote = 1, v_created_at = date1 e, v_updated_at = date2 e\<rparr>]\<rparr>)) \<and>
    (property body ''vote'' = JStr ''-1'' \<and> i \<notin> a_id ` set (answers s) \<longrightarrow>
       serve ser e s (PostAnswerDownvote ident body) =
         (Response 404 ''Answer not found.'' NoData,
          s\<lparr>answer_votes := answer_votes s @
            [\<lparr>target_id = i, vote = - 1, v_created_at = date1 e, v_updated_at = date2 e\<rparr>]\<rparr>))"
  using assms
  by (simp add: serve_vote_accepted question_vote_absent answer_vote_absent
      pg_integer_literals del: serve.simps)

theorem orphaned_vote_on_not_found_witness:
  "serve (\<lambda>v. [])
     \<lparr>db_ok = True, date1 = 100, date2 = 101\<rparr>
     \<lparr>questions = [\<lparr>q_id = 5, q_title = ''t'', q_description = ''d'', q_category = ''c'',
                     q_created_at = 10, q_updated_at = 10\<rparr>],
       answers = [], question_votes = [], answer_votes = [],
       question_seq = 6, answer_seq = 1\<rparr>
     (PostQuestionUpvote ''999'' [(''vote'', JStr ''1'')]) =
   (Response 404 ''Question not found.'' NoData,
    \<lparr>questions = [\<lparr>q_id = 5, q_title = ''t'', q_description = ''d'', q_category = ''c'',
                     q_created_at = 10, q_updated_at = 10\<rparr>],
       answers = [],
       question_votes = [\<lparr>target_id = 999, vote = 1, v_created_at = 100, v_updated_at = 101\<rparr>],
       answer_votes = [], question_seq = 6, answer_seq = 1\<rparr>)"
proof -
  have e: "db_ok \<lparr>db_ok = True, date1 = 100, date2 = 101\<rparr>" by simp
  have i: "int_of_text ''999'' = Some 999" by code_simp
  show ?thesis
    using orphaned_vote_on_not_found [OF e i, of "[(''vote'', JStr ''1'')]"
      "\<lparr>questions = [\<lparr>q_id = 5, q_title = ''t'', q_description = ''d'', q_category = ''c'',
                     q_created_at = 10, q_updated_at = 10\<rparr>],
       answers = [], question_votes = [], answer_votes = [],
       question_seq = 6, answer_seq = 1\<rparr>" "\<lambda>v. []"]
    by (simp add: property_def del: serve.simps)
qed

text \<open>
  C5. \<open>validateAnswer\<close> answers 400 when \<open>content\<close> is absent or the empty string,
  lets a string of 1 to 300 code units pass (300 included), and answers 400 for a string
  of 301 or more.
\<close>

theorem validateAnswer_boundary:
  "(property body ''content'' = JUndefined \<or> property body ''content'' = JStr [] \<longrightarrow>
      validateAnswer body = Reject (Response 400 ''Missing or invalid request data.'' NoData)) \<and>
   (property body ''content'' = JStr c \<and> 0 < length c \<and> length c \<le> 300 \<longrightarrow>
      validateAnswer body = Next) \<and>
   (property body ''content'' = JStr c \<and> 301 \<le> length c \<longrightarrow>
      validateAnswer body = Reject (Response 400 ''Textlength is over 300.'' NoData))"
  by (auto simp: validateAnswer_def length_over_def)

theorem validateAnswer_boundary_witness:
  "validateAnswer [] = Reject (Response 400 ''Missing or invalid request data.'' NoData) \<and>
   validateAnswer [(''content'', JStr [])] =
     Reject (Response 400 ''Missing or invalid request data.'' NoData) \<and>
   validateAnswer [(''content'', JStr (replicate 300 (CHR ''a'')))] = Next \<and>
   validateAnswer [(''content'', JStr (replicate 301 (CHR ''a'')))] =
     Reject (Response 400 ''Textlength is over 300.'' NoData)"
  using validateAnswer_boundary [of "[]" "[]"]
    validateAnswer_boundary [of "[(''content'', JStr [])]" "[]"]
    validateAnswer_boundary
      [of "[(''content'', JStr (replicate 300 (CHR ''a'')))]" "replicate 300 (CHR ''a'')"]
    validateAnswer_boundary
      [of "[(''content'', JStr (replicate 301 (CHR ''a'')))]" "replicate 301 (CHR ''a'')"]
  by (simp add: property_def)

text \<open>
  C6. \<open>validateQuery\<close> lets a query pass exactly when each of its parameter names is
  \<open>title\<close> or \<open>category\<close> (the empty query included), and answers 400 as soon as
  one name is another, whatever the other parameters.
\<close>

theorem validateQuery_allow_list:
  "(validateQuery query = Next \<longleftrightarrow> fst ` set query \<subseteq> {''title'', ''category''}) \<and>
   (\<not> fst ` set query \<subseteq> {''title'', ''category''} \<longrightarrow>
      validateQuery query = Reject (Response 400 ''Please enter a correct query.'' NoData))"
  by (simp add: validateQuery_def validateQuery_keys_result)

theorem validateQuery_allow_list_witness:
  "validateQuery [(''title'', JStr ''x''), (''category'', JStr ''y'')] = Next \<and>
   validateQuery [] = Next \<and>
   validateQuery [(''bogus'', JStr ''x'')] =
     Reject (Response 400 ''Please enter a correct query.'' NoData) \<and>
   validateQuery [(''title'', JStr ''x''), (''bogus'', JStr ''x''), (''category'', JStr ''y'')] =
     Reject (Response 400 ''Please enter a correct query.'' NoData)"
  using validateQuery_allow_list [of "[(''title'', JStr ''x''), (''category'', JStr ''y'')]"]
    validateQuery_allow_list [of "[]"]
    validateQuery_allow_list [of "[(''bogus'', JStr ''x'')]"]
    validateQuery_allow_list
      [of "[(''title'', JStr ''x''), (''bogus'', JStr ''x''), (''category'', JStr ''y'')]"]
  by simp

text \<open>
  C7. After any sequence of vote casts on questions and answers, whatever their number,
  direction and outcome, the tables of questions and of answers are what they were: no
  content field and no timestamp of an item has changed.
\<close>

theorem votes_leave_items_unchanged:
  "list_all (\<lambda>er. is_vote (snd er)) rs \<Longrightarrow>
   questions (serve_all ser s rs) = questions s \<and> answers (serve_all ser s rs) = answers s"
  by (rule serve_all_vote_frame)

theorem votes_leave_items_unchanged_witness:
  "questions (serve_all (\<lambda>v. [])
     \<lparr>questions = [\<lparr>q_id = 5, q_title = ''t'', q_description = ''d'', q_category = ''c'',
                     q_created_at = 10, q_updated_at = 10\<rparr>],
       answers = [\<lparr>a_id = 2, a_question_id = 5, a_content = ''a'', a_created_at = 20,
                   a_updated_at = 20\<rparr>],
       question_votes = [], answer_votes = [], question_seq = 6, answer_seq = 3\<rparr>
     [(\<lparr>db_ok = True, date1 = 100, date2 = 100\<rparr>,
         PostQuestionUpvote ''5'' [(''vote'', JStr ''1'')]),
      (\<lparr>db_ok = True, date1 = 200, date2 = 200\<rparr>,
         PostAnswerDownvote ''2'' [(''vote'', JStr ''-1'')]),
      (\<lparr>db_ok = False, date1 = 300, date2 = 300\<rparr>,
         PostQuestionDownvote ''5'' [(''vote'', JStr ''1'')])]) =
   [\<lparr>q_id = 5, q_title = ''t'', q_description = ''d'', q_category = ''c'',
      q_created_at = 10, q_updated_at = 10\<rparr>] \<and>
   answers (serve_all (\<lambda>v. [])
     \<lparr>questions = [\<lparr>q_id = 5, q_title = ''t'', q_description = ''d'', q_category = ''c'',
                     q_created_at = 10, q_updated_at = 10\<rparr>],
       answers = [\<lparr>a_id = 2, a_question_id = 5, a_content = ''a'', a_created_at = 20,
                   a_updated_at = 20\<rparr>],
       question_votes = [], answer_votes = [], question_seq = 6, answer_seq = 3\<rparr>
     [(\<lparr>db_ok = True, date1 = 100, date2 = 100\<rparr>,
         PostQuestionUpvote ''5'' [(''vote'', JStr ''1'')]),
      (\<lparr>db_ok = True, date1 = 200, date2 = 200\<rparr>,
         PostAnswerDownvote ''2'' [(''vote'', JStr ''-1'')]),
      (\<lparr>db_ok = False, date1 = 300, date2 = 300\<rparr>,
         PostQuestionDownvote ''5'' [(''vote'', JStr ''1'')])]) =
   [\<lparr>a_id = 2, a_question_id = 5, a_content = ''a'', a_created_at = 20,
      a_updated_at = 20\<rparr>]"
proof -
  have "list_all (\<lambda>er. is_vote (snd er))
     [(\<lparr>db_ok = True, date1 = 100, date2 = 100\<rparr>,
         PostQuestionUpvote ''5'' [(''vote'', JStr ''1'')]),
      (\<lparr>db_ok = True, date1 = 200, date2 = 200\<rparr>,
         PostAnswerDownvote ''2'' [(''vote'', JStr ''-1'')]),
      (\<lparr>db_ok = False, date1 = 300, date2 = 300\<rparr>,
         PostQuestionDownvote ''5'' [(''vote'', JStr ''1'')])]"
    by simp
  from votes_leave_items_unchanged [OF this] show ?thesis
    by (simp del: serve_all.simps)
qed

text \<open>
  C8. Across any sequence of requests to the routes of the two routers, each vote table
  only grows at its end: the rows it held are still there, in place and unchanged. If
  every row had direction 1 or -1 before, every row has direction 1 or -1 after. (The
  tables hold no counter: the tally is computed by the select of each cast.)
\<close>

theorem ledger_append_only:
  "prefix (question_votes s) (question_votes (serve_all ser s rs)) \<and>
   prefix (answer_votes s) (answer_votes (serve_all ser s rs)) \<and>
   (list_all (\<lambda>v. vote v = 1 \<or> vote v = - 1) (question_votes s) \<longrightarrow>
      list_all (\<lambda>v. vote v = 1 \<or> vote v = - 1) (question_votes (serve_all ser s rs))) \<and>
   (list_all (\<lambda>v. vote v = 1 \<or> vote v = - 1) (answer_votes s) \<longrightarrow>
      list_all (\<lambda>v. vote v = 1 \<or> vote v = - 1) (answer_votes (serve_all ser s rs)))"
proof -
  obtain qn an where
    "question_votes (serve_all ser s rs) = question_votes s @ qn"
    "answer_votes (serve_all ser s rs) = answer_votes s @ an"
    "list_all (\<lambda>v. vote v = 1 \<or> vote v = - 1) qn"
    "list_all (\<lambda>v. vote v = 1 \<or> vote v = - 1) an"
    using serve_all_ledger [of ser s rs] by blast
  then show ?thesis by simp
qed

theorem ledger_append_only_witness:
  "prefix [\<lparr>target_id = 5, vote = 1, v_created_at = 50, v_updated_at = 50\<rparr>]
     (question_votes (serve_all (\<lambda>v. [])
       \<lparr>questions = [\<lparr>q_id = 5, q_title = ''t'', q_description = ''d'', q_category = ''c'',
                       q_created_at = 10, q_updated_at = 10\<rparr>],
         answers = [],
         question_votes = [\<lparr>target_id = 5, vote = 1, v_created_at = 50, v_updated_at = 50\<rparr>],
         answer_votes = [], question_seq = 6, answer_seq = 1\<rparr>
       [(\<lparr>db_ok = True, date1 = 100, date2 = 100\<rparr>,
           PostQuestionDownvote ''5'' [(''vote'', JStr ''-1'')]),
        (\<lparr>db_ok = True, date1 = 200, date2 = 200\<rparr>,
           PostQuestionUpvote ''5'' [(''vote'', JNum 7)]),
        (\<lparr>db_ok = True, date1 = 300, date2 = 300\<rparr>, DeleteQuestion ''5'')])) \<and>
   list_all (\<lambda>v. vote v = 1 \<or> vote v = - 1)
     (question_votes (serve_all (\<lambda>v. [])
       \<lparr>questions = [\<lparr>q_id = 5, q_title = ''t'', q_description = ''d'', q_category = ''c'',
                       q_created_at = 10, q_updated_at = 10\<rparr>],
         answers = [],
         question_votes = [\<lparr>target_id = 5, vote = 1, v_created_at = 50, v_updated_at = 50\<rparr>],
         answer_votes = [], question_seq = 6, answer_seq = 1\<rparr>
       [(\<lparr>db_ok = True, date1 = 100, date2 = 100\<rparr>,
           PostQuestionDownvote ''5'' [(''vote'', JStr ''-1'')]),
        (\<lparr>db_ok = True, date1 = 200, date2 = 200\<rparr>,
           PostQuestionUpvote ''5'' [(''vote'', JNum 7)]),
        (\<lparr>db_ok = True, date1 = 300, date2 = 300\<rparr>, DeleteQuestion ''5'')]))"
  using ledger_append_only [of
      "\<lparr>questions = [\<lparr>q_id = 5, q_title = ''t'', q_description = ''d'', q_category = ''c'',
                       q_created_at = 10, q_updated_at = 10\<rparr>],
         answers = [],
         question_votes = [\<lparr>target_id = 5, vote = 1, v_created_at = 50, v_updated_at = 50\<rparr>],
         answer_votes = [], question_seq = 6, answer_seq = 1\<rparr>"
      "\<lambda>v. []"
      "[(\<lparr>db_ok = True, date1 = 100, date2 = 100\<rparr>,
           PostQuestionDownvote ''5'' [(''vote'', JStr ''-1'')]),
        (\<lparr>db_ok = True, date1 = 200, date2 = 200\<rparr>,
           PostQuestionUpvote ''5'' [(''vote'', JNum 7)]),
        (\<lparr>db_ok = True, date1 = 300, date2 = 300\<rparr>, DeleteQuestion ''5'')]"]
  by (simp del: serve_all.simps)

text \<open>
  C9 (as stated, false). The claim: a direction that is present but is not the literal
  of the route is rejected with the message of the route (\<open>Please enter only ...\<close>),
  also when it is 0 or the empty string. For the empty string and for 0 the middleware
  answers with the message of a missing field instead.
\<close>

theorem falsy_direction_counterexample:
  "validateQuestionUpVote [(''vote'', JStr '''')] =
     Reject (Response 400 ''Missing or invalid request data.'' NoData) \<and>
   validateAnswerDownVote [(''vote'', JNum 0)] =
     Reject (Response 400 ''Missing or invalid request data.'' NoData)"
  by (simp add: validateQuestionUpVote_def validateAnswerDownVote_def property_def)

text \<open>
  C9 (amended). A vote field that is absent or falsy (null, false, 0, the empty string)
  is rejected with 400 and \<open>Missing or invalid request data.\<close> by each of the four
  vote middlewares; a truthy one that is not exactly the literal of the route is
  rejected with 400 and the message of the route, \<open>Please enter only 1.\<close> or
  \<open>Please enter only -1.\<close>
\<close>

theorem vote_rejection_kind:
  "(\<not> truthy (property body ''vote'') \<longrightarrow>
      validateQuestionUpVote body =
        Reject (Response 400 ''Missing or invalid request data.'' NoData) \<and>
      validateQuestionDownVote body =
        Reject (Response 400 ''Missing or invalid request data.'' NoData) \<and>
      validateAnswerUpVote body =
        Reject (Response 400 ''Missing or invalid request data.'' NoData) \<and>
      validateAnswerDownVote body =
        Reject (Response 400 ''Missing or invalid request data.'' NoData)) \<and>
   (truthy (property body ''vote'') \<and> property body ''vote'' \<noteq> JStr ''1'' \<longrightarrow>
      validateQuestionUpVote body = Reject (Response 400 ''Please enter only 1.'' NoData) \<and>
      validateAnswerUpVote body = Reject (Response 400 ''Please enter only 1.'' NoData)) \<and>
   (truthy (property body ''vote'') \<and> property body ''vote'' \<noteq> JStr ''-1'' \<longrightarrow>
      validateQuestionDownVote body = Reject (Response 400 ''Please enter only -1.'' NoData) \<and>
      validateAnswerDownVote body = Reject (Response 400 ''Please enter only -1.'' NoData)) \<and>
   (truthy (property body ''vote'') \<longleftrightarrow>
      property body ''vote'' \<notin> {JUndefined, JNull, JBool False, JNum 0, JStr []})"
proof -
  have "truthy v \<longleftrightarrow> v \<notin> {JUndefined, JNull, JBool False, JNum 0, JStr []}" for v
    by (cases v) auto
  then show ?thesis
    by (simp add: validateQuestionUpVote_def validateQuestionDownVote_def
        validateAnswerUpVote_def validateAnswerDownVote_def)
qed

theorem vote_rejection_kind_witness:
  "validateQuestionUpVote [] =
     Reject (Response 400 ''Missing or invalid request data.'' NoData) \<and>
   validateQuestionUpVote [(''vote'', JNum 0)] =
     Reject (Response 400 ''Missing or invalid request data.'' NoData) \<and>
   validateQuestionUpVote [(''vote'', JStr ''-1'')] =
     Reject (Response 400 ''Please enter only 1.'' NoData) \<and>
   validateAnswerDownVote [(''vote'', JNum 1)] =
     Reject (Response 400 ''Please enter only -1.'' NoData)"
  using vote_rejection_kind [of "[]"] vote_rejection_kind [of "[(''vote'', JNum 0)]"]
    vote_rejection_kind [of "[(''vote'', JStr ''-1'')]"]
    vote_rejection_kind [of "[(''vote'', JNum 1)]"]
  by (simp add: property_def)

text \<open>
  C10. A request for the list of questions that passes \<open>validateQuery\<close> and whose
  statement runs is answered 404 with \<open>Question not found.\<close> when no question matches
  the filter; and a 200 of this route always carries a list with at least one question.
\<close>

theorem empty_question_list_is_404:
  "(validateQuery query = Next \<and> db_ok e \<and>
    [q \<leftarrow> questions s. sql_filter (pg_text ser (property query ''title'')) (q_title q) \<and>
                        sql_filter (pg_text ser (property query ''category'')) (q_category q)]
      = [] \<longrightarrow>
      fst (serve ser e s (GetQuestions query)) =
        Response 404 ''Question not found.'' NoData) \<and>
   (status (fst (serve ser e s (GetQuestions query))) = 200 \<longrightarrow>
      (\<exists>rows. rows \<noteq> [] \<and>
         fst (serve ser e s (GetQuestions query)) =
           Response 200 ''Successfully retrieved the list of questions.''
             (QuestionList rows)))"
proof (cases "validateQuery query")
  case (Reject r)
  then have "r = Response 400 ''Please enter a correct query.'' NoData"
    by (simp add: validateQuery_def validateQuery_keys_result split: if_splits)
  with Reject show ?thesis by (simp add: behind_def)
next
  case Next
  then show ?thesis
    by (simp add: behind_def get_questions_def Let_def)
qed

theorem empty_question_list_is_404_witness:
  "fst (serve (\<lambda>v. [])
     \<lparr>db_ok = True, date1 = 100, date2 = 100\<rparr>
     \<lparr>questions = [\<lparr>q_id = 5, q_title = ''t'', q_description = ''d'', q_category = ''c'',
                     q_created_at = 10, q_updated_at = 10\<rparr>],
       answers = [], question_votes = [], answer_votes = [],
       question_seq = 6, answer_seq = 1\<rparr>
     (GetQuestions [(''title'', JStr ''x'')])) =
   Response 404 ''Question not found.'' NoData"
  using empty_question_list_is_404 [of "[(''title'', JStr ''x'')]"
     "\<lparr>db_ok = True, date1 = 100, date2 = 100\<rparr>" "\<lambda>v. []"
     "\<lparr>questions = [\<lparr>q_id = 5, q_title = ''t'', q_description = ''d'', q_category = ''c'',
                     q_created_at = 10, q_updated_at = 10\<rparr>],
       answers = [], question_votes = [], answer_votes = [],
       question_seq = 6, answer_seq = 1\<rparr>"]
  by (simp add: validateQuery_def property_def sql_filter_def del: serve.simps)

end
